theory Spec2Isabelle
  imports Complex_Main
begin

section \<open>Tensors, parameters and errors\<close>

text \<open>
  The discriminator of \<^verbatim>\<open>src/models/Discriminator.py\<close> is a class built from library
  modules (\<^verbatim>\<open>nn.Conv2d\<close>, \<^verbatim>\<open>nn.BatchNorm2d\<close>, \<^verbatim>\<open>nn.LeakyReLU\<close>, \<^verbatim>\<open>nn.AvgPool2d\<close>,
  \<^verbatim>\<open>nn.Flatten\<close>, \<^verbatim>\<open>nn.Linear\<close>, \<^verbatim>\<open>nn.Sigmoid\<close>, \<^verbatim>\<open>nn.Softmax\<close>). Each library module
  is embedded by what its documentation says it computes, with the arguments the source
  passes; the two methods of the class, \<^verbatim>\<open>forward\<close> and \<^verbatim>\<open>display_gradients\<close>, and
  its constructor are embedded statement by statement.

  A tensor is its shape, its entries in row-major order, and the names of the parameters
  it was computed from (the leaves of its autograd graph). Entries are real numbers: the
  model idealises floating point (no rounding, no infinities, no NaN).
\<close>

record tensor =
  shape :: "nat list"
  storage :: "real list"
  leaves :: "string set"

text \<open>A parameter is a tensor that is its own leaf, together with its \<^verbatim>\<open>.grad\<close>
  (\<^verbatim>\<open>None\<close> until a backward pass reaches it).\<close>

record parameter =
  pdata :: tensor
  grad :: "tensor option"

text \<open>The assert statements of the source, by the place where they stand.\<close>

datatype assertion =
  InputShape | Layer1Shape | Layer2Shape | Layer3Shape | Layer4Shape | Layer5Shape
  | FlattenShape | ProbabilitiesShape | StylesShape | GradNotNone

text \<open>
  Exceptions. An \<open>AssertionError\<close> carries the assert statement that failed and the shape
  its message prints (empty where the message prints none); the other three are raised
  inside the library and carry the name of the operation that refused its argument.
\<close>

datatype error =
  AssertionError assertion "nat list"
  | RuntimeError string
  | ValueError string
  | IndexError string

definition wf_tensor :: "tensor \<Rightarrow> bool" where
  "wf_tensor t \<longleftrightarrow> length (storage t) = prod_list (shape t)"

text \<open>Entry \<open>(n, c, h, w)\<close> of a four-dimensional tensor, and entry \<open>(r, i)\<close> of a
  two-dimensional one, in row-major order.\<close>

definition at4 :: "tensor \<Rightarrow> nat \<Rightarrow> nat \<Rightarrow> nat \<Rightarrow> nat \<Rightarrow> real" where
  "at4 t n c h w =
     (case shape t of
        [N, C, H, W] \<Rightarrow> storage t ! (((n * C + c) * H + h) * W + w)
      | _ \<Rightarrow> 0)"

definition at2 :: "tensor \<Rightarrow> nat \<Rightarrow> nat \<Rightarrow> real" where
  "at2 t r i =
     (case shape t of
        [R, F] \<Rightarrow> storage t ! (r * F + i)
      | _ \<Rightarrow> 0)"

text \<open>The multi-index of flat position \<open>idx\<close> in a tensor of shape \<open>[_, C, H, W]\<close>.\<close>

definition unravel4 :: "nat \<Rightarrow> nat \<Rightarrow> nat \<Rightarrow> nat \<Rightarrow> nat \<times> nat \<times> nat \<times> nat" where
  "unravel4 C H W idx =
     (idx div (C * H * W), (idx div (H * W)) mod C, (idx div W) mod H, idx mod W)"

section \<open>The library modules\<close>

subsection \<open>Conv2d\<close>

text \<open>
  \<^verbatim>\<open>nn.Conv2d(in_channels, out_channels, kernel_size, stride, padding)\<close>: a weight of
  shape \<open>[out, in, kh, kw]\<close>, a bias of shape \<open>[out]\<close>, zero padding, dilation 1, one
  group. The output extent along an axis of extent \<open>n\<close> is
  \<open>(n + 2 * padding - kernel) div stride + 1\<close>; the library refuses an input whose channel
  count is not the weight's or that is smaller than the kernel after padding. The forward
  pass only ever passes a batch, a tensor of four axes; a tensor of another rank is
  refused here.
\<close>

record Conv2d =
  conv_weight :: parameter
  conv_bias :: parameter
  conv_stride :: "nat \<times> nat"
  conv_padding :: "nat \<times> nat"

definition conv_out :: "nat \<Rightarrow> nat \<Rightarrow> nat \<Rightarrow> nat \<Rightarrow> nat" where
  "conv_out n k s p = (n + 2 * p - k) div s + 1"

text \<open>The input read at row \<open>r\<close> and column \<open>q\<close> of the zero-padded image.\<close>

definition padded :: "tensor \<Rightarrow> nat \<Rightarrow> nat \<Rightarrow> nat \<Rightarrow> nat \<Rightarrow> nat \<Rightarrow> nat \<Rightarrow> real" where
  "padded x ph pw n c r q =
     (case shape x of
        [N, C, H, W] \<Rightarrow>
          (if ph \<le> r \<and> r < H + ph \<and> pw \<le> q \<and> q < W + pw
           then at4 x n c (r - ph) (q - pw) else 0)
      | _ \<Rightarrow> 0)"

definition conv2d :: "Conv2d \<Rightarrow> tensor \<Rightarrow> error + tensor" where
  "conv2d cv x =
     (case shape x of
        [N, C, H, W] \<Rightarrow>
          (case shape (pdata (conv_weight cv)) of
             [Co, Ci, kh, kw] \<Rightarrow>
               (let sh = fst (conv_stride cv); sw = snd (conv_stride cv);
                    ph = fst (conv_padding cv); pw = snd (conv_padding cv)
                in if C \<noteq> Ci \<or> sh = 0 \<or> sw = 0 \<or> H + 2 * ph < kh \<or> W + 2 * pw < kw
                   then Inl (RuntimeError ''conv2d'')
                   else
                     (let Ho = conv_out H kh sh ph; Wo = conv_out W kw sw pw
                      in Inr \<lparr>shape = [N, Co, Ho, Wo],
                              storage =
                                map (\<lambda>idx. case unravel4 Co Ho Wo idx of (n, co, i, j) \<Rightarrow>
                                       storage (pdata (conv_bias cv)) ! co +
                                       (\<Sum>ci\<leftarrow>[0..<Ci]. \<Sum>a\<leftarrow>[0..<kh]. \<Sum>b\<leftarrow>[0..<kw].
                                          at4 (pdata (conv_weight cv)) co ci a b *
                                          padded x ph pw n ci (i * sh + a) (j * sw + b)))
                                  [0..<N * Co * Ho * Wo],
                              leaves = leaves x \<union> leaves (pdata (conv_weight cv))
                                         \<union> leaves (pdata (conv_bias cv))\<rparr>))
           | _ \<Rightarrow> Inl (RuntimeError ''conv2d''))
      | _ \<Rightarrow> Inl (RuntimeError ''conv2d''))"

subsection \<open>BatchNorm2d\<close>

text \<open>
  \<^verbatim>\<open>nn.BatchNorm2d(num_features)\<close> with the defaults \<open>eps = 1e-5\<close>, \<open>momentum = 0.1\<close>,
  \<open>affine = True\<close>, \<open>track_running_stats = True\<close>. The affine weight and bias are
  parameters; \<open>running_mean\<close>, \<open>running_var\<close> and \<open>num_batches_tracked\<close> are buffers:
  state of the module that no optimizer touches.

  In training mode the module first counts the batch, then normalises each channel with
  the mean and the biased variance of the batch and moves the running statistics towards
  the batch statistics (the unbiased variance for \<open>running_var\<close>); the library refuses a
  batch with a single value per channel. In evaluation mode it normalises with the
  running statistics and changes nothing. An input without entries is answered by an
  output without entries before the library looks at the statistics, in both modes.
\<close>

record BatchNorm2d =
  num_features :: nat
  bn_eps :: real
  momentum :: real
  bn_weight :: parameter
  bn_bias :: parameter
  running_mean :: "real list"
  running_var :: "real list"
  num_batches_tracked :: nat
  bn_training :: bool

text \<open>The entries of channel \<open>c\<close>, over the batch and both spatial axes.\<close>

definition channel_entries :: "tensor \<Rightarrow> nat \<Rightarrow> real list" where
  "channel_entries x c =
     (case shape x of
        [N, C, H, W] \<Rightarrow>
          concat (map (\<lambda>n. concat (map (\<lambda>h. map (\<lambda>w. at4 x n c h w) [0..<W]) [0..<H]))
                    [0..<N])
      | _ \<Rightarrow> [])"

definition batch_mean :: "tensor \<Rightarrow> nat \<Rightarrow> real" where
  "batch_mean x c = sum_list (channel_entries x c) / real (length (channel_entries x c))"

definition batch_var :: "tensor \<Rightarrow> nat \<Rightarrow> real" where
  "batch_var x c =
     (\<Sum>v\<leftarrow>channel_entries x c. (v - batch_mean x c)\<^sup>2) / real (length (channel_entries x c))"

definition batch_var_unbiased :: "tensor \<Rightarrow> nat \<Rightarrow> real" where
  "batch_var_unbiased x c =
     (\<Sum>v\<leftarrow>channel_entries x c. (v - batch_mean x c)\<^sup>2)
       / (real (length (channel_entries x c)) - 1)"

definition normalize :: "BatchNorm2d \<Rightarrow> (nat \<Rightarrow> real) \<Rightarrow> (nat \<Rightarrow> real) \<Rightarrow> tensor \<Rightarrow> tensor" where
  "normalize bn mean var x =
     (case shape x of
        [N, C, H, W] \<Rightarrow>
          \<lparr>shape = [N, C, H, W],
           storage =
             map (\<lambda>idx. case unravel4 C H W idx of (n, c, h, w) \<Rightarrow>
                    (at4 x n c h w - mean c) / sqrt (var c + bn_eps bn) *
                      storage (pdata (bn_weight bn)) ! c + storage (pdata (bn_bias bn)) ! c)
               [0..<N * C * H * W],
           leaves = leaves x \<union> leaves (pdata (bn_weight bn)) \<union> leaves (pdata (bn_bias bn))\<rparr>
      | _ \<Rightarrow> x)"

text \<open>The buffers after the running statistics have moved towards the statistics of
  the batch \<open>x\<close>.\<close>

definition update_stats :: "BatchNorm2d \<Rightarrow> tensor \<Rightarrow> BatchNorm2d" where
  "update_stats bn x =
     bn\<lparr>running_mean :=
          map (\<lambda>c. (1 - momentum bn) * running_mean bn ! c + momentum bn * batch_mean x c)
            [0..<num_features bn],
        running_var :=
          map (\<lambda>c. (1 - momentum bn) * running_var bn ! c + momentum bn * batch_var_unbiased x c)
            [0..<num_features bn]\<rparr>"

definition batch_norm :: "BatchNorm2d \<Rightarrow> tensor \<Rightarrow> (error + tensor) \<times> BatchNorm2d" where
  "batch_norm bn x =
     (case shape x of
        [N, C, H, W] \<Rightarrow>
          (if bn_training bn then
             (let bn1 = bn\<lparr>num_batches_tracked := num_batches_tracked bn + 1\<rparr>
              in if N * H * W = 1 then (Inl (ValueError ''batch_norm''), bn1)
                 else if N * C * H * W = 0
                 then (Inr (normalize bn (batch_mean x) (batch_var x) x), bn1)
                 else if C \<noteq> num_features bn then (Inl (RuntimeError ''batch_norm''), bn1)
                 else (Inr (normalize bn (batch_mean x) (batch_var x) x), update_stats bn1 x))
           else if N * C * H * W = 0
           then (Inr (normalize bn (\<lambda>c. running_mean bn ! c) (\<lambda>c. running_var bn ! c) x), bn)
           else if C \<noteq> num_features bn then (Inl (RuntimeError ''batch_norm''), bn)
           else (Inr (normalize bn (\<lambda>c. running_mean bn ! c) (\<lambda>c. running_var bn ! c) x), bn))
      | _ \<Rightarrow> (Inl (ValueError ''batch_norm''), bn))"

subsection \<open>LeakyReLU\<close>

definition leaky_relu :: "real \<Rightarrow> tensor \<Rightarrow> tensor" where
  "leaky_relu slope x = x\<lparr>storage := map (\<lambda>v. if 0 \<le> v then v else slope * v) (storage x)\<rparr>"

subsection \<open>Sequential blocks of the five stages\<close>

text \<open>
  Each of \<^verbatim>\<open>layer1\<close> .. \<^verbatim>\<open>layer5\<close> is an \<^verbatim>\<open>nn.Sequential\<close> of a convolution, a batch
  normalisation (absent in \<^verbatim>\<open>layer1\<close>) and a leaky rectification, applied in that
  order. Running the block returns the block as well: its batch normalisation may have
  changed, also when a later module of the block raised.
\<close>

record ConvBlock =
  conv :: Conv2d
  norm :: "BatchNorm2d option"
  negative_slope :: real

definition run_block :: "ConvBlock \<Rightarrow> tensor \<Rightarrow> (error + tensor) \<times> ConvBlock" where
  "run_block b x =
     (case conv2d (conv b) x of
        Inl e \<Rightarrow> (Inl e, b)
      | Inr y \<Rightarrow>
          (case norm b of
             None \<Rightarrow> (Inr (leaky_relu (negative_slope b) y), b)
           | Some bn \<Rightarrow>
               (case batch_norm bn y of
                  (Inl e, bn') \<Rightarrow> (Inl e, b\<lparr>norm := Some bn'\<rparr>)
                | (Inr z, bn') \<Rightarrow> (Inr (leaky_relu (negative_slope b) z), b\<lparr>norm := Some bn'\<rparr>))))"

subsection \<open>AvgPool2d and Flatten\<close>

text \<open>
  \<^verbatim>\<open>nn.AvgPool2d(kernel_size=k)\<close>: the stride is the kernel size, no padding, floor
  mode. Each output entry is the mean of a \<open>k \<times> k\<close> window; the library refuses an
  input smaller than the window. As for the convolution, only batches are modelled.
  \<^verbatim>\<open>nn.Flatten()\<close> keeps axis 0 and merges the others; it needs a second axis to start
  from.
\<close>

definition avg_pool2d :: "nat \<Rightarrow> tensor \<Rightarrow> error + tensor" where
  "avg_pool2d k x =
     (case shape x of
        [N, C, H, W] \<Rightarrow>
          (if k = 0 \<or> H < k \<or> W < k then Inl (RuntimeError ''avg_pool2d'')
           else
             (let Ho = (H - k) div k + 1; Wo = (W - k) div k + 1
              in Inr \<lparr>shape = [N, C, Ho, Wo],
                      storage =
                        map (\<lambda>idx. case unravel4 C Ho Wo idx of (n, c, i, j) \<Rightarrow>
                               (\<Sum>a\<leftarrow>[0..<k]. \<Sum>b\<leftarrow>[0..<k]. at4 x n c (i * k + a) (j * k + b))
                                 / real (k * k))
                          [0..<N * C * Ho * Wo],
                      leaves = leaves x\<rparr>))
      | _ \<Rightarrow> Inl (RuntimeError ''avg_pool2d''))"

definition flatten :: "tensor \<Rightarrow> error + tensor" where
  "flatten x =
     (case shape x of
        n # d # ds \<Rightarrow> Inr (x\<lparr>shape := [n, prod_list (d # ds)]\<rparr>)
      | _ \<Rightarrow> Inl (IndexError ''flatten''))"

subsection \<open>Linear, Sigmoid, Softmax\<close>

text \<open>
  \<^verbatim>\<open>nn.Linear(in_features, out_features)\<close>: a weight of shape \<open>[out, in]\<close> and a bias of
  shape \<open>[out]\<close>; every row \<open>r\<close> of the input (its last axis) is mapped to
  \<open>bias + weight \<cdot> r\<close>. The library refuses an input whose last axis is not
  \<open>in_features\<close> long.
\<close>

record Linear =
  lin_weight :: parameter
  lin_bias :: parameter

definition linear :: "Linear \<Rightarrow> tensor \<Rightarrow> error + tensor" where
  "linear l x =
     (case shape (pdata (lin_weight l)) of
        [out, inn] \<Rightarrow>
          (if shape x = [] \<or> last (shape x) \<noteq> inn then Inl (RuntimeError ''linear'')
           else
             (let rows = prod_list (butlast (shape x))
              in Inr \<lparr>shape = butlast (shape x) @ [out],
                      storage =
                        map (\<lambda>idx.
                               storage (pdata (lin_bias l)) ! (idx mod out) +
                               (\<Sum>i\<leftarrow>[0..<inn].
                                  storage x ! ((idx div out) * inn + i) *
                                  storage (pdata (lin_weight l)) ! ((idx mod out) * inn + i)))
                          [0..<rows * out],
                      leaves = leaves x \<union> leaves (pdata (lin_weight l))
                                 \<union> leaves (pdata (lin_bias l))\<rparr>))
      | _ \<Rightarrow> Inl (RuntimeError ''linear''))"

definition sigmoid :: "tensor \<Rightarrow> tensor" where
  "sigmoid x = x\<lparr>storage := map (\<lambda>v. 1 / (1 + exp (- v))) (storage x)\<rparr>"

text \<open>
  \<^verbatim>\<open>nn.Softmax(dim=d)\<close>: with \<open>n\<close> the extent of axis \<open>d\<close>, \<open>inner\<close> the number of
  entries of one slice below it, and an entry at flat position \<open>idx\<close>, the entries that
  share its slice along axis \<open>d\<close> are at \<open>(idx div (n * inner)) * n * inner + m * inner +
  idx mod inner\<close> for \<open>m < n\<close>; the entry becomes its exponential divided by the sum of
  their exponentials. A tensor of no axes counts as one slice of one entry along axis 0.
\<close>

definition softmax :: "nat \<Rightarrow> tensor \<Rightarrow> error + tensor" where
  "softmax d x =
     (if shape x = [] \<and> d = 0
      then Inr (x\<lparr>storage := map (\<lambda>v. exp v / exp v) (storage x)\<rparr>)
      else if length (shape x) \<le> d then Inl (IndexError ''softmax'')
      else
        (let n = shape x ! d; inner = prod_list (drop (Suc d) (shape x))
         in Inr (x\<lparr>storage :=
                     map (\<lambda>idx. exp (storage x ! idx) /
                            (\<Sum>m\<leftarrow>[0..<n].
                               exp (storage x ! ((idx div (n * inner)) * (n * inner)
                                                  + m * inner + idx mod inner))))
                       [0..<length (storage x)]\<rparr>)))"

text \<open>The two heads are an \<^verbatim>\<open>nn.Sequential\<close> of a linear layer and an activation.\<close>

datatype Activation = Sigmoid | Softmax nat

record Head =
  fc :: Linear
  activation :: Activation

definition run_head :: "Head \<Rightarrow> tensor \<Rightarrow> error + tensor" where
  "run_head h x =
     (case linear (fc h) x of
        Inl e \<Rightarrow> Inl e
      | Inr y \<Rightarrow>
          (case activation h of
             Sigmoid \<Rightarrow> Inr (sigmoid y)
           | Softmax d \<Rightarrow> softmax d y))"

section \<open>The Discriminator\<close>

subsection \<open>Construction\<close>

text \<open>
  The fields \<^verbatim>\<open>__init__\<close> sets. \<^verbatim>\<open>style_classes\<close> is a Python integer, stored as it
  was passed.
\<close>

record Discriminator =
  style_classes :: int
  layer1 :: ConvBlock
  layer2 :: ConvBlock
  layer3 :: ConvBlock
  layer4 :: ConvBlock
  layer5 :: ConvBlock
  probabilities :: Head
  styles :: Head

text \<open>
  A fresh parameter of a given name and shape. The library draws the initial entries of
  convolution and linear parameters from its global random generator: here \<open>init\<close> gives
  the entry at each flat position. A fresh parameter has no gradient.
\<close>

definition new_parameter :: "string \<Rightarrow> nat list \<Rightarrow> (nat \<Rightarrow> real) \<Rightarrow> parameter" where
  "new_parameter name shp init =
     \<lparr>pdata = \<lparr>shape = shp, storage = map init [0..<prod_list shp], leaves = {name}\<rparr>,
      grad = None\<rparr>"

definition new_Conv2d ::
  "string \<Rightarrow> nat \<Rightarrow> nat \<Rightarrow> nat \<times> nat \<Rightarrow> nat \<times> nat \<Rightarrow> nat \<times> nat \<Rightarrow> (string \<Rightarrow> nat \<Rightarrow> real) \<Rightarrow> Conv2d" where
  "new_Conv2d name in_channels out_channels kernel_size strd pad rng =
     \<lparr>conv_weight =
        new_parameter (name @ ''.weight'')
          [out_channels, in_channels, fst kernel_size, snd kernel_size] (rng (name @ ''.weight'')),
      conv_bias = new_parameter (name @ ''.bias'') [out_channels] (rng (name @ ''.bias'')),
      conv_stride = strd,
      conv_padding = pad\<rparr>"

text \<open>A fresh batch normalisation: weight 1, bias 0, running mean 0, running variance 1,
  no batch counted, training mode (the mode every module is constructed in).\<close>

definition new_BatchNorm2d :: "string \<Rightarrow> nat \<Rightarrow> BatchNorm2d" where
  "new_BatchNorm2d name n =
     \<lparr>num_features = n,
      bn_eps = 1 / 100000,
      momentum = 1 / 10,
      bn_weight = new_parameter (name @ ''.weight'') [n] (\<lambda>_. 1),
      bn_bias = new_parameter (name @ ''.bias'') [n] (\<lambda>_. 0),
      running_mean = replicate n 0,
      running_var = replicate n 1,
      num_batches_tracked = 0,
      bn_training = True\<rparr>"

text \<open>
  \<^verbatim>\<open>nn.Linear\<close> allocates a weight of shape \<open>[out_features, in_features]\<close>; the
  allocation raises on a negative extent and accepts zero.
\<close>

definition new_Linear :: "string \<Rightarrow> int \<Rightarrow> int \<Rightarrow> (string \<Rightarrow> nat \<Rightarrow> real) \<Rightarrow> error + Linear" where
  "new_Linear name in_features out_features rng =
     (if in_features < 0 \<or> out_features < 0 then Inl (RuntimeError ''empty'')
      else Inr
        \<lparr>lin_weight =
           new_parameter (name @ ''.weight'') [nat out_features, nat in_features]
             (rng (name @ ''.weight'')),
         lin_bias = new_parameter (name @ ''.bias'') [nat out_features] (rng (name @ ''.bias''))\<rparr>)"

text \<open>
  \<^verbatim>\<open>Discriminator.__init__(relu_negative_slope, style_classes)\<close>. Parameter names are the
  ones the module tree gives them (\<^verbatim>\<open>layer2.1.weight\<close> is the weight of the second module
  of \<^verbatim>\<open>layer2\<close>). The third argument stands for the random generator.
\<close>

definition Discriminator_init ::
  "real \<Rightarrow> int \<Rightarrow> (string \<Rightarrow> nat \<Rightarrow> real) \<Rightarrow> error + Discriminator" where
  "Discriminator_init relu_negative_slope style_classes_arg rng =
     (let neg_slope = relu_negative_slope;
          l1 = \<lparr>conv = new_Conv2d ''layer1.0'' 3 64 (4, 4) (2, 2) (1, 1) rng,
                norm = None, negative_slope = neg_slope\<rparr>;
          l2 = \<lparr>conv = new_Conv2d ''layer2.0'' 64 128 (4, 4) (2, 2) (1, 1) rng,
                norm = Some (new_BatchNorm2d ''layer2.1'' 128), negative_slope = neg_slope\<rparr>;
          l3 = \<lparr>conv = new_Conv2d ''layer3.0'' 128 256 (4, 4) (2, 2) (1, 1) rng,
                norm = Some (new_BatchNorm2d ''layer3.1'' 256), negative_slope = neg_slope\<rparr>;
          l4 = \<lparr>conv = new_Conv2d ''layer4.0'' 256 512 (4, 4) (2, 2) (1, 1) rng,
                norm = Some (new_BatchNorm2d ''layer4.1'' 512), negative_slope = neg_slope\<rparr>;
          l5 = \<lparr>conv = new_Conv2d ''layer5.0'' 512 512 (3, 3) (1, 1) (1, 1) rng,
                norm = Some (new_BatchNorm2d ''layer5.1'' 512), negative_slope = neg_slope\<rparr>
      in case new_Linear ''probabilities.0'' 512 1 rng of
           Inl e \<Rightarrow> Inl e
         | Inr pl \<Rightarrow>
             (case new_Linear ''styles.0'' 512 style_classes_arg rng of
                Inl e \<Rightarrow> Inl e
              | Inr sl \<Rightarrow>
                  Inr \<lparr>style_classes = style_classes_arg,
                       layer1 = l1, layer2 = l2, layer3 = l3, layer4 = l4, layer5 = l5,
                       probabilities = \<lparr>fc = pl, activation = Sigmoid\<rparr>,
                       styles = \<lparr>fc = sl, activation = Softmax 0\<rparr>\<rparr>))"

subsection \<open>The forward pass\<close>

text \<open>
  \<^verbatim>\<open>assert t.shape[1:] == torch.Size(expected), f"... {t.shape} ..."\<close>: the tensor passes
  when its shape without the batch axis is the expected one. Assert statements are
  executed, as the interpreter does unless it is asked to optimise them away.
\<close>

definition assert_shape :: "assertion \<Rightarrow> nat list \<Rightarrow> tensor \<Rightarrow> error + tensor" where
  "assert_shape a expected t =
     (if tl (shape t) = expected then Inr t else Inl (AssertionError a (shape t)))"

text \<open>
  \<^verbatim>\<open>forward\<close> is a straight line of statements. \<open>stage1\<close> .. \<open>stage5\<close> and \<open>pooled\<close> are
  its prefixes: each gives the local variable after the assert statement that follows
  the stage (or the exception raised up to there) and the model as the statements run
  so far have left it. \<open>stage1\<close> starts with the assert statement on the input.
\<close>

definition stage1 :: "Discriminator \<Rightarrow> tensor \<Rightarrow> (error + tensor) \<times> Discriminator" where
  "stage1 m x =
     (if tl (shape x) \<noteq> [3, 256, 256] then (Inl (AssertionError InputShape []), m)
      else
        (case run_block (layer1 m) x of
           (Inl e, b) \<Rightarrow> (Inl e, m\<lparr>layer1 := b\<rparr>)
         | (Inr x1, b) \<Rightarrow> (assert_shape Layer1Shape [64, 128, 128] x1, m\<lparr>layer1 := b\<rparr>)))"

definition stage2 :: "Discriminator \<Rightarrow> tensor \<Rightarrow> (error + tensor) \<times> Discriminator" where
  "stage2 m x =
     (case stage1 m x of
        (Inl e, m1) \<Rightarrow> (Inl e, m1)
      | (Inr x1, m1) \<Rightarrow>
          (case run_block (layer2 m1) x1 of
             (Inl e, b) \<Rightarrow> (Inl e, m1\<lparr>layer2 := b\<rparr>)
           | (Inr x2, b) \<Rightarrow> (assert_shape Layer2Shape [128, 64, 64] x2, m1\<lparr>layer2 := b\<rparr>)))"

definition stage3 :: "Discriminator \<Rightarrow> tensor \<Rightarrow> (error + tensor) \<times> Discriminator" where
  "stage3 m x =
     (case stage2 m x of
        (Inl e, m2) \<Rightarrow> (Inl e, m2)
      | (Inr x2, m2) \<Rightarrow>
          (case run_block (layer3 m2) x2 of
             (Inl e, b) \<Rightarrow> (Inl e, m2\<lparr>layer3 := b\<rparr>)
           | (Inr x3, b) \<Rightarrow> (assert_shape Layer3Shape [256, 32, 32] x3, m2\<lparr>layer3 := b\<rparr>)))"

definition stage4 :: "Discriminator \<Rightarrow> tensor \<Rightarrow> (error + tensor) \<times> Discriminator" where
  "stage4 m x =
     (case stage3 m x of
        (Inl e, m3) \<Rightarrow> (Inl e, m3)
      | (Inr x3, m3) \<Rightarrow>
          (case run_block (layer4 m3) x3 of
             (Inl e, b) \<Rightarrow> (Inl e, m3\<lparr>layer4 := b\<rparr>)
           | (Inr x4, b) \<Rightarrow> (assert_shape Layer4Shape [512, 16, 16] x4, m3\<lparr>layer4 := b\<rparr>)))"

definition stage5 :: "Discriminator \<Rightarrow> tensor \<Rightarrow> (error + tensor) \<times> Discriminator" where
  "stage5 m x =
     (case stage4 m x of
        (Inl e, m4) \<Rightarrow> (Inl e, m4)
      | (Inr x4, m4) \<Rightarrow>
          (case run_block (layer5 m4) x4 of
             (Inl e, b) \<Rightarrow> (Inl e, m4\<lparr>layer5 := b\<rparr>)
           | (Inr x5, b) \<Rightarrow> (assert_shape Layer5Shape [512, 16, 16] x5, m4\<lparr>layer5 := b\<rparr>)))"

text \<open>The local \<^verbatim>\<open>flatten\<close>: the pooled and flattened features, after their assert.\<close>

definition pooled :: "Discriminator \<Rightarrow> tensor \<Rightarrow> (error + tensor) \<times> Discriminator" where
  "pooled m x =
     (case stage5 m x of
        (Inl e, m5) \<Rightarrow> (Inl e, m5)
      | (Inr x5, m5) \<Rightarrow>
          (case avg_pool2d 16 x5 of
             Inl e \<Rightarrow> (Inl e, m5)
           | Inr x6 \<Rightarrow>
               (case flatten x6 of
                  Inl e \<Rightarrow> (Inl e, m5)
                | Inr fl \<Rightarrow> (assert_shape FlattenShape [512] fl, m5))))"

definition forward :: "Discriminator \<Rightarrow> tensor \<Rightarrow> (error + tensor \<times> tensor) \<times> Discriminator" where
  "forward m x =
     (case pooled m x of
        (Inl e, m') \<Rightarrow> (Inl e, m')
      | (Inr fl, m') \<Rightarrow>
          (case run_head (probabilities m') fl of
             Inl e \<Rightarrow> (Inl e, m')
           | Inr ps \<Rightarrow>
               (if tl (shape ps) \<noteq> [1] then (Inl (AssertionError ProbabilitiesShape (shape ps)), m')
                else
                  (case run_head (styles m') fl of
                     Inl e \<Rightarrow> (Inl e, m')
                   | Inr st \<Rightarrow>
                       (if map int (tl (shape st)) \<noteq> [style_classes m']
                        then (Inl (AssertionError StylesShape (shape st)), m')
                        else (Inr (ps, st), m'))))))"

subsection \<open>Gradients: the backward pass and display_gradients\<close>

text \<open>\<^verbatim>\<open>layer.parameters()\<close>: the parameters of the modules of a block, in module order;
  activations have none, and the buffers of a batch normalisation are not parameters.\<close>

definition block_parameters :: "ConvBlock \<Rightarrow> parameter list" where
  "block_parameters b =
     [conv_weight (conv b), conv_bias (conv b)] @
     (case norm b of None \<Rightarrow> [] | Some bn \<Rightarrow> [bn_weight bn, bn_bias bn])"

definition head_parameters :: "Head \<Rightarrow> parameter list" where
  "head_parameters h = [lin_weight (fc h), lin_bias (fc h)]"

text \<open>What \<^verbatim>\<open>print\<close> wrote: the opening line, or the line of parameter \<open>j\<close> of layer
  \<open>i\<close> with its gradient.\<close>

datatype printed = Banner | GradLine nat nat "tensor option"

text \<open>The inner loop, \<^verbatim>\<open>for j, module in enumerate(layer.parameters())\<close>, from
  position \<open>j\<close> on: print, then assert.\<close>

fun display_parameters ::
  "nat \<Rightarrow> nat \<Rightarrow> parameter list \<Rightarrow> printed list \<Rightarrow> (error + unit) \<times> printed list" where
  "display_parameters i j [] out = (Inr (), out)"
| "display_parameters i j (p # ps) out =
     (if grad p = None then (Inl (AssertionError GradNotNone []), out @ [GradLine i j (grad p)])
      else display_parameters i (Suc j) ps (out @ [GradLine i j (grad p)]))"

text \<open>The outer loop, \<^verbatim>\<open>for i, layer in enumerate([...])\<close>, from position \<open>i\<close> on.\<close>

fun display_layers ::
  "nat \<Rightarrow> parameter list list \<Rightarrow> printed list \<Rightarrow> (error + unit) \<times> printed list" where
  "display_layers i [] out = (Inr (), out)"
| "display_layers i (l # ls) out =
     (case display_parameters i 0 l out of
        (Inl e, out') \<Rightarrow> (Inl e, out')
      | (Inr _, out') \<Rightarrow> display_layers (Suc i) ls out')"

text \<open>The list the outer loop runs over.\<close>

definition layer_list :: "Discriminator \<Rightarrow> parameter list list" where
  "layer_list m =
     [block_parameters (layer1 m), block_parameters (layer2 m), block_parameters (layer3 m),
      block_parameters (layer4 m), block_parameters (layer5 m),
      head_parameters (probabilities m), head_parameters (styles m)]"

text \<open>
  \<^verbatim>\<open>display_gradients\<close> takes the model and what has been printed so far, and returns its
  result, what has been printed then, and the model it leaves behind.
\<close>

definition display_gradients ::
  "Discriminator \<Rightarrow> printed list \<Rightarrow> (error + unit) \<times> printed list \<times> Discriminator" where
  "display_gradients m out =
     (case display_layers 0 (layer_list m) (out @ [Banner]) of
        (r, out') \<Rightarrow> (r, out', m))"

text \<open>
  The backward pass belongs to the library's autograd engine. From a tensor it walks the
  graph the forward computation recorded and adds a gradient to the \<^verbatim>\<open>.grad\<close> of every
  leaf it reaches; a parameter it does not reach keeps the \<^verbatim>\<open>.grad\<close> it had. The
  gradient entries are the engine's: \<open>g\<close> gives, for a parameter, the gradient the engine
  computed for it. A parameter is a leaf that requires a gradient when its own leaf set
  is not empty.
\<close>

definition accumulate :: "tensor option \<Rightarrow> tensor \<Rightarrow> tensor" where
  "accumulate old new =
     (case old of
        None \<Rightarrow> new
      | Some t \<Rightarrow> t\<lparr>storage := map (\<lambda>(a, b). a + b) (zip (storage t) (storage new))\<rparr>)"

definition backward_parameter :: "(parameter \<Rightarrow> tensor) \<Rightarrow> tensor \<Rightarrow> parameter \<Rightarrow> parameter" where
  "backward_parameter g loss p =
     (if leaves (pdata p) \<noteq> {} \<and> leaves (pdata p) \<subseteq> leaves loss
      then p\<lparr>grad := Some (accumulate (grad p) (g p))\<rparr> else p)"

definition backward_block :: "(parameter \<Rightarrow> tensor) \<Rightarrow> tensor \<Rightarrow> ConvBlock \<Rightarrow> ConvBlock" where
  "backward_block g loss b =
     b\<lparr>conv := (conv b)\<lparr>conv_weight := backward_parameter g loss (conv_weight (conv b)),
                         conv_bias := backward_parameter g loss (conv_bias (conv b))\<rparr>,
       norm := (case norm b of
                  None \<Rightarrow> None
                | Some bn \<Rightarrow>
                    Some (bn\<lparr>bn_weight := backward_parameter g loss (bn_weight bn),
                             bn_bias := backward_parameter g loss (bn_bias bn)\<rparr>))\<rparr>"

definition backward_head :: "(parameter \<Rightarrow> tensor) \<Rightarrow> tensor \<Rightarrow> Head \<Rightarrow> Head" where
  "backward_head g loss h =
     h\<lparr>fc := (fc h)\<lparr>lin_weight := backward_parameter g loss (lin_weight (fc h)),
                     lin_bias := backward_parameter g loss (lin_bias (fc h))\<rparr>\<rparr>"

definition backward :: "(parameter \<Rightarrow> tensor) \<Rightarrow> tensor \<Rightarrow> Discriminator \<Rightarrow> Discriminator" where
  "backward g loss m =
     m\<lparr>layer1 := backward_block g loss (layer1 m),
       layer2 := backward_block g loss (layer2 m),
       layer3 := backward_block g loss (layer3 m),
       layer4 := backward_block g loss (layer4 m),
       layer5 := backward_block g loss (layer5 m),
       probabilities := backward_head g loss (probabilities m),
       styles := backward_head g loss (styles m)\<rparr>"

text \<open>A loss that combines both outputs: the sum of all their entries, a tensor of no
  axes computed from both.\<close>

definition sum_loss :: "tensor \<Rightarrow> tensor \<Rightarrow> tensor" where
  "sum_loss ps st =
     \<lparr>shape = [], storage = [sum_list (storage ps) + sum_list (storage st)],
      leaves = leaves ps \<union> leaves st\<rparr>"

subsection \<open>Models as the constructor builds them\<close>

text \<open>
  What \<^verbatim>\<open>__init__\<close> fixes and no later statement changes: the shapes of the parameters
  and buffers, strides and paddings, the activations of the heads, and that every
  parameter requires a gradient. The entries of parameters and buffers, the gradients
  and the training flags are free.
\<close>

definition wf_parameter :: "parameter \<Rightarrow> nat list \<Rightarrow> bool" where
  "wf_parameter p shp \<longleftrightarrow>
     shape (pdata p) = shp \<and> length (storage (pdata p)) = prod_list shp \<and> leaves (pdata p) \<noteq> {}"

definition wf_Conv2d :: "Conv2d \<Rightarrow> nat \<Rightarrow> nat \<Rightarrow> nat \<Rightarrow> nat \<Rightarrow> nat \<Rightarrow> bool" where
  "wf_Conv2d cv cin cout k s p \<longleftrightarrow>
     wf_parameter (conv_weight cv) [cout, cin, k, k] \<and> wf_parameter (conv_bias cv) [cout] \<and>
     conv_stride cv = (s, s) \<and> conv_padding cv = (p, p)"

definition wf_BatchNorm2d :: "BatchNorm2d option \<Rightarrow> nat \<Rightarrow> bool" where
  "wf_BatchNorm2d b n \<longleftrightarrow>
     (case b of
        None \<Rightarrow> False
      | Some bn \<Rightarrow>
          num_features bn = n \<and> wf_parameter (bn_weight bn) [n] \<and> wf_parameter (bn_bias bn) [n] \<and>
          length (running_mean bn) = n \<and> length (running_var bn) = n)"

definition wf_Head :: "Head \<Rightarrow> nat \<Rightarrow> nat \<Rightarrow> Activation \<Rightarrow> bool" where
  "wf_Head h inn out a \<longleftrightarrow>
     wf_parameter (lin_weight (fc h)) [out, inn] \<and> wf_parameter (lin_bias (fc h)) [out] \<and>
     activation h = a"

definition wf_Discriminator :: "Discriminator \<Rightarrow> bool" where
  "wf_Discriminator m \<longleftrightarrow>
     wf_Conv2d (conv (layer1 m)) 3 64 4 2 1 \<and> norm (layer1 m) = None \<and>
     wf_Conv2d (conv (layer2 m)) 64 128 4 2 1 \<and> wf_BatchNorm2d (norm (layer2 m)) 128 \<and>
     wf_Conv2d (conv (layer3 m)) 128 256 4 2 1 \<and> wf_BatchNorm2d (norm (layer3 m)) 256 \<and>
     wf_Conv2d (conv (layer4 m)) 256 512 4 2 1 \<and> wf_BatchNorm2d (norm (layer4 m)) 512 \<and>
     wf_Conv2d (conv (layer5 m)) 512 512 3 1 1 \<and> wf_BatchNorm2d (norm (layer5 m)) 512 \<and>
     wf_Head (probabilities m) 512 1 Sigmoid \<and>
     0 \<le> style_classes m \<and>
     wf_Head (styles m) 512 (nat (style_classes m)) (Softmax 0)"

subsection \<open>What a forward pass may change\<close>

text \<open>The leaves a list of parameters contributes to a graph.\<close>

definition param_leaves :: "parameter list \<Rightarrow> string set" where
  "param_leaves ps = (\<Union>p\<in>set ps. leaves (pdata p))"

text \<open>
  Two batch normalisations, two blocks, two models are the same up to training-mode
  buffers when they agree on everything but the buffers of batch normalisations that
  are in training mode: on the parameters with their gradients, on the settings and on
  the training flags, and on the buffers of batch normalisations in evaluation mode.
\<close>

definition bn_equiv :: "BatchNorm2d \<Rightarrow> BatchNorm2d \<Rightarrow> bool" where
  "bn_equiv a b \<longleftrightarrow>
     num_features a = num_features b \<and> bn_eps a = bn_eps b \<and> momentum a = momentum b \<and>
     bn_weight a = bn_weight b \<and> bn_bias a = bn_bias b \<and> bn_training a = bn_training b \<and>
     (bn_training a \<or>
        (running_mean a = running_mean b \<and> running_var a = running_var b \<and>
         num_batches_tracked a = num_batches_tracked b))"

definition block_equiv :: "ConvBlock \<Rightarrow> ConvBlock \<Rightarrow> bool" where
  "block_equiv a b \<longleftrightarrow>
     conv a = conv b \<and> negative_slope a = negative_slope b \<and>
     (case (norm a, norm b) of
        (None, None) \<Rightarrow> True
      | (Some x, Some y) \<Rightarrow> bn_equiv x y
      | _ \<Rightarrow> False)"

definition model_equiv :: "Discriminator \<Rightarrow> Discriminator \<Rightarrow> bool" where
  "model_equiv a b \<longleftrightarrow>
     style_classes a = style_classes b \<and>
     block_equiv (layer1 a) (layer1 b) \<and> block_equiv (layer2 a) (layer2 b) \<and>
     block_equiv (layer3 a) (layer3 b) \<and> block_equiv (layer4 a) (layer4 b) \<and>
     block_equiv (layer5 a) (layer5 b) \<and>
     probabilities a = probabilities b \<and> styles a = styles b"

text \<open>A block is in evaluation mode when it has no batch normalisation in training
  mode; \<open>batches\<close> is the number of batches its batch normalisation has counted,
  \<open>variances\<close> its running variance.\<close>

definition eval_block :: "ConvBlock \<Rightarrow> bool" where
  "eval_block b \<longleftrightarrow> (case norm b of None \<Rightarrow> True | Some bn \<Rightarrow> \<not> bn_training bn)"

definition batches :: "ConvBlock \<Rightarrow> nat" where
  "batches b = (case norm b of None \<Rightarrow> 0 | Some bn \<Rightarrow> num_batches_tracked bn)"

definition variances :: "ConvBlock \<Rightarrow> real list" where
  "variances b = (case norm b of None \<Rightarrow> [] | Some bn \<Rightarrow> running_var bn)"

definition eval_mode :: "Discriminator \<Rightarrow> bool" where
  "eval_mode m \<longleftrightarrow>
     eval_block (layer1 m) \<and> eval_block (layer2 m) \<and> eval_block (layer3 m) \<and>
     eval_block (layer4 m) \<and> eval_block (layer5 m)"

text \<open>\<^verbatim>\<open>model.eval()\<close>, the library's switch to evaluation mode: it clears the training
  flag of every module.\<close>

definition eval_block_of :: "ConvBlock \<Rightarrow> ConvBlock" where
  "eval_block_of b = b\<lparr>norm := map_option (\<lambda>bn. bn\<lparr>bn_training := False\<rparr>) (norm b)\<rparr>"

definition set_eval :: "Discriminator \<Rightarrow> Discriminator" where
  "set_eval m =
     m\<lparr>layer1 := eval_block_of (layer1 m), layer2 := eval_block_of (layer2 m),
       layer3 := eval_block_of (layer3 m), layer4 := eval_block_of (layer4 m),
       layer5 := eval_block_of (layer5 m)\<rparr>"

subsection \<open>What display_gradients is to print\<close>

text \<open>
  The lines of all parameters in the order of the loops: layer by layer through
  \<open>layer_list\<close>, parameter by parameter within a layer, each with the positions the two
  \<^verbatim>\<open>enumerate\<close> calls give it. A line is missing its gradient when it shows \<^verbatim>\<open>None\<close>;
  \<open>until_missing\<close> cuts a list of lines after the first such line.
\<close>

definition grad_lines :: "Discriminator \<Rightarrow> printed list" where
  "grad_lines m =
     concat (map (\<lambda>(i, l). map (\<lambda>(j, p). GradLine i j (grad p)) (enumerate 0 l))
               (enumerate 0 (layer_list m)))"

fun missing :: "printed \<Rightarrow> bool" where
  "missing (GradLine i j None) = True"
| "missing _ = False"

fun until_missing :: "printed list \<Rightarrow> printed list" where
  "until_missing [] = []"
| "until_missing (l # ls) = (if missing l then [l] else l # until_missing ls)"

definition has_grad :: "parameter \<Rightarrow> bool" where
  "has_grad p \<longleftrightarrow> grad p \<noteq> None"

definition all_grads :: "Discriminator \<Rightarrow> bool" where
  "all_grads m \<longleftrightarrow> list_all has_grad (concat (layer_list m))"

text \<open>An engine's gradients for the concrete runs below: for every parameter a tensor of
  zeros of the parameter's shape.\<close>

definition zero_grads :: "parameter \<Rightarrow> tensor" where
  "zero_grads p = (pdata p)\<lparr>storage := map (\<lambda>_. 0) (storage (pdata p)), leaves := {}\<rparr>"

subsection \<open>Concrete models and inputs\<close>

text \<open>
  A freshly constructed model with negative slope 0.2 and three style classes, all drawn
  entries zero; batches of \<open>n\<close> black images; and two batches of a shape the forward pass
  rejects.
\<close>

definition zeros_rng :: "string \<Rightarrow> nat \<Rightarrow> real" where
  "zeros_rng name i = 0"

definition example_model :: Discriminator where
  "example_model = projr (Discriminator_init (1 / 5) 3 zeros_rng)"

definition example_batch :: "nat \<Rightarrow> tensor" where
  "example_batch n =
     \<lparr>shape = [n, 3, 256, 256], storage = replicate (n * 3 * 256 * 256) 0, leaves = {}\<rparr>"

definition wrong_channels :: tensor where
  "wrong_channels =
     \<lparr>shape = [2, 4, 256, 256], storage = replicate (2 * 4 * 256 * 256) 0, leaves = {}\<rparr>"

definition wrong_extent :: tensor where
  "wrong_extent =
     \<lparr>shape = [2, 3, 128, 128], storage = replicate (2 * 3 * 128 * 128) 0, leaves = {}\<rparr>"

section \<open>The library modules and the stages\<close>

subsection \<open>Shapes of a convolution block\<close>

lemma conv2d_ok:
  assumes "wf_Conv2d cv cin cout k s p" and "shape x = [N, cin, H, W]"
    and "0 < s" and "k \<le> H + 2 * p" and "k \<le> W + 2 * p"
  shows "\<exists>y. conv2d cv x = Inr y \<and> shape y = [N, cout, conv_out H k s p, conv_out W k s p]
           \<and> wf_tensor y
           \<and> leaves y = leaves x \<union> param_leaves [conv_weight cv, conv_bias cv]"
  using assms
  by (auto simp add: conv2d_def wf_Conv2d_def wf_parameter_def wf_tensor_def param_leaves_def Let_def)

lemma normalize_shape:
  "shape x = [N, C, H, W] \<Longrightarrow>
     shape (normalize bn mu var x) = [N, C, H, W] \<and> wf_tensor (normalize bn mu var x) \<and>
     leaves (normalize bn mu var x) = leaves x \<union> param_leaves [bn_weight bn, bn_bias bn]"
  by (auto simp add: normalize_def wf_tensor_def param_leaves_def)

lemma batch_norm_ok:
  assumes "wf_BatchNorm2d (Some bn) C" and "shape x = [N, C, H, W]" and "N * H * W \<noteq> 1"
  shows "\<exists>y bn'. batch_norm bn x = (Inr y, bn') \<and> shape y = [N, C, H, W] \<and> wf_tensor y
           \<and> leaves y = leaves x \<union> param_leaves [bn_weight bn, bn_bias bn]
           \<and> bn_equiv bn bn'"
  using assms normalize_shape[OF assms(2)]
  by (auto simp add: batch_norm_def wf_BatchNorm2d_def bn_equiv_def update_stats_def Let_def)

lemma leaky_relu_simps:
  "shape (leaky_relu s x) = shape x" "leaves (leaky_relu s x) = leaves x"
  "wf_tensor (leaky_relu s x) = wf_tensor x"
  by (simp_all add: leaky_relu_def wf_tensor_def)

lemma run_block_ok:
  assumes "wf_Conv2d (conv b) cin cout k s p" and "norm b = None \<or> wf_BatchNorm2d (norm b) cout"
    and "shape x = [N, cin, H, W]"
    and "0 < s" and "k \<le> H + 2 * p" and "k \<le> W + 2 * p"
    and "N * conv_out H k s p * conv_out W k s p \<noteq> 1"
  shows "\<exists>y b'. run_block b x = (Inr y, b') \<and>
           shape y = [N, cout, conv_out H k s p, conv_out W k s p] \<and> wf_tensor y \<and>
           leaves y = leaves x \<union> param_leaves (block_parameters b) \<and> block_equiv b b'"
proof -
  from conv2d_ok[OF assms(1,3,4,5,6)] obtain y where
    y: "conv2d (conv b) x = Inr y" "shape y = [N, cout, conv_out H k s p, conv_out W k s p]"
       "wf_tensor y" "leaves y = leaves x \<union> param_leaves [conv_weight (conv b), conv_bias (conv b)]"
    by blast
  show ?thesis
  proof (cases "norm b")
    case None
    with y show ?thesis
      by (simp add: run_block_def leaky_relu_simps block_parameters_def block_equiv_def)
  next
    case (Some bn)
    with assms(2) have wf: "wf_BatchNorm2d (Some bn) cout" by simp
    from batch_norm_ok[OF wf y(2) assms(7)] obtain z bn' where
      z: "batch_norm bn y = (Inr z, bn')" "shape z = [N, cout, conv_out H k s p, conv_out W k s p]"
         "wf_tensor z" "leaves z = leaves y \<union> param_leaves [bn_weight bn, bn_bias bn]"
         "bn_equiv bn bn'"
      by blast
    with y Some show ?thesis
      by (auto simp add: run_block_def leaky_relu_simps block_parameters_def block_equiv_def param_leaves_def)
  qed
qed

lemma bn_equiv_refl: "bn_equiv a a"
  by (simp add: bn_equiv_def)

lemma bn_equiv_trans: "bn_equiv a b \<Longrightarrow> bn_equiv b c \<Longrightarrow> bn_equiv a c"
  by (auto simp add: bn_equiv_def)

lemma block_equiv_refl: "block_equiv a a"
  by (simp add: block_equiv_def bn_equiv_refl split: option.splits)

lemma block_equiv_trans: "block_equiv a b \<Longrightarrow> block_equiv b c \<Longrightarrow> block_equiv a c"
  by (auto simp add: block_equiv_def split: option.splits intro: bn_equiv_trans)

lemma model_equiv_refl: "model_equiv a a"
  by (simp add: model_equiv_def block_equiv_refl)

lemma model_equiv_trans: "model_equiv a b \<Longrightarrow> model_equiv b c \<Longrightarrow> model_equiv a c"
  unfolding model_equiv_def by (metis block_equiv_trans)

lemma block_equiv_parameters: "block_equiv a b \<Longrightarrow> block_parameters a = block_parameters b"
  by (auto simp add: block_equiv_def block_parameters_def bn_equiv_def split: option.splits)

lemma block_equiv_None: "block_equiv a b \<Longrightarrow> norm a = None \<Longrightarrow> norm b = None"
  by (auto simp add: block_equiv_def split: option.splits)

lemma block_equiv_conv: "block_equiv a b \<Longrightarrow> conv b = conv a"
  by (simp add: block_equiv_def)

lemma model_equiv_layer_list: "model_equiv a b \<Longrightarrow> layer_list a = layer_list b"
  by (simp add: model_equiv_def layer_list_def block_equiv_parameters)

lemma assert_shape_ok: "tl (shape t) = e \<Longrightarrow> assert_shape a e t = Inr t"
  by (simp add: assert_shape_def)

lemma normalize_cong: "bn_equiv a b \<Longrightarrow> normalize a mu var x = normalize b mu var x"
  by (simp add: normalize_def bn_equiv_def split: list.splits)

lemma batch_norm_4d:
  "shape x = [N, C, H, W] \<Longrightarrow> batch_norm bn x =
          (if bn_training bn then
             (let bn1 = bn\<lparr>num_batches_tracked := num_batches_tracked bn + 1\<rparr>
              in if N * H * W = 1 then (Inl (ValueError ''batch_norm''), bn1)
                 else if N * C * H * W = 0
                 then (Inr (normalize bn (batch_mean x) (batch_var x) x), bn1)
                 else if C \<noteq> num_features bn then (Inl (RuntimeError ''batch_norm''), bn1)
                 else (Inr (normalize bn (batch_mean x) (batch_var x) x), update_stats bn1 x))
           else if N * C * H * W = 0
           then (Inr (normalize bn (\<lambda>c. running_mean bn ! c) (\<lambda>c. running_var bn ! c) x), bn)
           else if C \<noteq> num_features bn then (Inl (RuntimeError ''batch_norm''), bn)
           else (Inr (normalize bn (\<lambda>c. running_mean bn ! c) (\<lambda>c. running_var bn ! c) x), bn))"
  by (simp add: batch_norm_def)

lemma list_case4:
  "(case xs of [a, b, c, d] \<Rightarrow> f a b c d | _ \<Rightarrow> g) =
     (if length xs = 4 then f (xs ! 0) (xs ! 1) (xs ! 2) (xs ! 3) else g)"
  by (simp split: list.splits)

lemma batch_norm_not_4d:
  "length (shape x) \<noteq> 4 \<Longrightarrow> batch_norm bn x = (Inl (ValueError ''batch_norm''), bn)"
  by (simp add: batch_norm_def list_case4)

lemma shape_4d: "length (shape x) = 4 \<Longrightarrow> \<exists>N C H W. shape x = [N, C, H, W]"
  by (auto simp add: length_Suc_conv eval_nat_numeral)

lemma batch_norm_cong:
  assumes "bn_equiv a b"
  shows "fst (batch_norm a x) = fst (batch_norm b x)"
proof (cases "length (shape x) = 4")
  case True
  then obtain N C H W where s: "shape x = [N, C, H, W]" using shape_4d by blast
  note n = normalize_cong[OF assms]
  show ?thesis
  proof (cases "bn_training a")
    case True
    with assms have t: "bn_training b" "num_features a = num_features b"
      by (simp_all add: bn_equiv_def)
    show ?thesis by (simp add: batch_norm_4d[OF s] Let_def True t n)
  next
    case False
    with assms have t: "\<not> bn_training b" "num_features a = num_features b"
      "running_mean a = running_mean b" "running_var a = running_var b"
      by (simp_all add: bn_equiv_def)
    show ?thesis by (simp add: batch_norm_4d[OF s] False t n)
  qed
next
  case False
  then show ?thesis by (simp add: batch_norm_not_4d)
qed

lemma batch_norm_equiv: "bn_equiv bn (snd (batch_norm bn x))"
proof (cases "length (shape x) = 4")
  case True
  then obtain N C H W where s: "shape x = [N, C, H, W]" using shape_4d by blast
  show ?thesis by (simp add: batch_norm_4d[OF s] Let_def bn_equiv_def update_stats_def)
next
  case False
  then show ?thesis by (simp add: batch_norm_not_4d bn_equiv_def)
qed

lemma batch_norm_wf:
  assumes "wf_BatchNorm2d (Some bn) n"
  shows "wf_BatchNorm2d (Some (snd (batch_norm bn x))) n"
proof (cases "length (shape x) = 4")
  case True
  then obtain N C H W where s: "shape x = [N, C, H, W]" using shape_4d by blast
  from assms show ?thesis
    by (simp add: batch_norm_4d[OF s] Let_def wf_BatchNorm2d_def update_stats_def)
next
  case False
  with assms show ?thesis by (simp add: batch_norm_not_4d)
qed

lemma batch_norm_eval: "\<not> bn_training bn \<Longrightarrow> snd (batch_norm bn x) = bn"
proof (cases "length (shape x) = 4")
  case True
  assume e: "\<not> bn_training bn"
  from True obtain N C H W where s: "shape x = [N, C, H, W]" using shape_4d by blast
  from e show ?thesis by (simp add: batch_norm_4d[OF s])
next
  case False
  then show ?thesis by (simp add: batch_norm_not_4d)
qed

lemma run_block_snd:
  "snd (run_block b x) =
     (case conv2d (conv b) x of
        Inl e \<Rightarrow> b
      | Inr y \<Rightarrow>
          (case norm b of None \<Rightarrow> b | Some bn \<Rightarrow> b\<lparr>norm := Some (snd (batch_norm bn y))\<rparr>))"
  by (simp add: run_block_def split: sum.splits option.splits prod.splits)

lemma run_block_equiv: "block_equiv b (snd (run_block b x))"
  by (simp add: run_block_snd block_equiv_def bn_equiv_refl batch_norm_equiv
           split: sum.splits option.splits)

lemma run_block_wf:
  "wf_BatchNorm2d (norm b) n \<Longrightarrow> wf_BatchNorm2d (norm (snd (run_block b x))) n"
  by (auto simp add: run_block_snd batch_norm_wf split: sum.splits option.splits)

lemma run_block_cong:
  assumes "block_equiv a b"
  shows "fst (run_block a x) = fst (run_block b x)"
proof (cases "conv2d (conv a) x")
  case (Inl e)
  with assms show ?thesis by (simp add: run_block_def block_equiv_def)
next
  case (Inr y)
  show ?thesis
  proof (cases "norm a")
    case None
    with assms have "norm b = None" by (auto dest: block_equiv_None)
    with None Inr assms show ?thesis by (simp add: run_block_def block_equiv_def)
  next
    case (Some bna)
    with assms obtain bnb where b: "norm b = Some bnb" "bn_equiv bna bnb"
      by (auto simp add: block_equiv_def split: option.splits)
    from batch_norm_cong[OF b(2), of y] Some b(1) Inr assms show ?thesis
      by (auto simp add: run_block_def block_equiv_def split: prod.splits sum.splits)
  qed
qed

lemma run_block_eval: "eval_block b \<Longrightarrow> snd (run_block b x) = b"
  by (auto simp add: run_block_snd eval_block_def batch_norm_eval split: sum.splits option.splits)

lemma bn_equiv_sym: "bn_equiv a b \<Longrightarrow> bn_equiv b a"
  by (auto simp add: bn_equiv_def)

lemma block_equiv_sym: "block_equiv a b \<Longrightarrow> block_equiv b a"
  by (auto simp add: block_equiv_def split: option.splits intro: bn_equiv_sym)

lemma model_equiv_sym: "model_equiv a b \<Longrightarrow> model_equiv b a"
  by (simp add: model_equiv_def block_equiv_sym)

lemma stage1_fst:
  "fst (stage1 m x) =
     (if tl (shape x) \<noteq> [3, 256, 256] then Inl (AssertionError InputShape [])
      else (case fst (run_block (layer1 m) x) of
              Inl e \<Rightarrow> Inl e
            | Inr x1 \<Rightarrow> assert_shape Layer1Shape [64, 128, 128] x1))"
  by (simp add: stage1_def split: prod.splits sum.splits)

lemma stage1_snd:
  "snd (stage1 m x) =
     (if tl (shape x) \<noteq> [3, 256, 256] then m
      else m\<lparr>layer1 := snd (run_block (layer1 m) x)\<rparr>)"
  by (simp add: stage1_def split: prod.splits sum.splits)

lemma stage2_fst:
  "fst (stage2 m x) =
     (case fst (stage1 m x) of
        Inl e \<Rightarrow> Inl e
      | Inr y \<Rightarrow>
          (case fst (run_block (layer2 (snd (stage1 m x))) y) of
             Inl e \<Rightarrow> Inl e
           | Inr z \<Rightarrow> assert_shape Layer2Shape [128, 64, 64] z))"
  by (simp add: stage2_def split: prod.splits sum.splits)

lemma stage2_snd:
  "snd (stage2 m x) =
     (case fst (stage1 m x) of
        Inl e \<Rightarrow> snd (stage1 m x)
      | Inr y \<Rightarrow>
          (snd (stage1 m x))\<lparr>layer2 := snd (run_block (layer2 (snd (stage1 m x))) y)\<rparr>)"
  by (simp add: stage2_def split: prod.splits sum.splits)

lemma stage3_fst:
  "fst (stage3 m x) =
     (case fst (stage2 m x) of
        Inl e \<Rightarrow> Inl e
      | Inr y \<Rightarrow>
          (case fst (run_block (layer3 (snd (stage2 m x))) y) of
             Inl e \<Rightarrow> Inl e
           | Inr z \<Rightarrow> assert_shape Layer3Shape [256, 32, 32] z))"
  by (simp add: stage3_def split: prod.splits sum.splits)

lemma stage3_snd:
  "snd (stage3 m x) =
     (case fst (stage2 m x) of
        Inl e \<Rightarrow> snd (stage2 m x)
      | Inr y \<Rightarrow>
          (snd (stage2 m x))\<lparr>layer3 := snd (run_block (layer3 (snd (stage2 m x))) y)\<rparr>)"
  by (simp add: stage3_def split: prod.splits sum.splits)

lemma stage4_fst:
  "fst (stage4 m x) =
     (case fst (stage3 m x) of
        Inl e \<Rightarrow> Inl e
      | Inr y \<Rightarrow>
          (case fst (run_block (layer4 (snd (stage3 m x))) y) of
             Inl e \<Rightarrow> Inl e
           | Inr z \<Rightarrow> assert_shape Layer4Shape [512, 16, 16] z))"
  by (simp add: stage4_def split: prod.splits sum.splits)

lemma stage4_snd:
  "snd (stage4 m x) =
     (case fst (stage3 m x) of
        Inl e \<Rightarrow> snd (stage3 m x)
      | Inr y \<Rightarrow>
          (snd (stage3 m x))\<lparr>layer4 := snd (run_block (layer4 (snd (stage3 m x))) y)\<rparr>)"
  by (simp add: stage4_def split: prod.splits sum.splits)

lemma stage5_fst:
  "fst (stage5 m x) =
     (case fst (stage4 m x) of
        Inl e \<Rightarrow> Inl e
      | Inr y \<Rightarrow>
          (case fst (run_block (layer5 (snd (stage4 m x))) y) of
             Inl e \<Rightarrow> Inl e
           | Inr z \<Rightarrow> assert_shape Layer5Shape [512, 16, 16] z))"
  by (simp add: stage5_def split: prod.splits sum.splits)

lemma stage5_snd:
  "snd (stage5 m x) =
     (case fst (stage4 m x) of
        Inl e \<Rightarrow> snd (stage4 m x)
      | Inr y \<Rightarrow>
          (snd (stage4 m x))\<lparr>layer5 := snd (run_block (layer5 (snd (stage4 m x))) y)\<rparr>)"
  by (simp add: stage5_def split: prod.splits sum.splits)

lemma pooled_snd: "snd (pooled m x) = snd (stage5 m x)"
  by (simp add: pooled_def split: prod.splits sum.splits)

lemma forward_snd: "snd (forward m x) = snd (stage5 m x)"
  by (simp add: forward_def pooled_snd[symmetric] split: prod.splits sum.splits)

lemma stage1_equiv: "model_equiv m (snd (stage1 m x))"
  by (simp add: stage1_snd model_equiv_def block_equiv_refl run_block_equiv)

lemma stage2_equiv: "model_equiv m (snd (stage2 m x))"
proof -
  have "model_equiv (snd (stage1 m x)) (snd (stage2 m x))"
    by (simp add: stage2_snd model_equiv_def block_equiv_refl run_block_equiv split: sum.splits)
  with stage1_equiv[of m x] show ?thesis by (rule model_equiv_trans)
qed

lemma stage3_equiv: "model_equiv m (snd (stage3 m x))"
proof -
  have "model_equiv (snd (stage2 m x)) (snd (stage3 m x))"
    by (simp add: stage3_snd model_equiv_def block_equiv_refl run_block_equiv split: sum.splits)
  with stage2_equiv[of m x] show ?thesis by (rule model_equiv_trans)
qed

lemma stage4_equiv: "model_equiv m (snd (stage4 m x))"
proof -
  have "model_equiv (snd (stage3 m x)) (snd (stage4 m x))"
    by (simp add: stage4_snd model_equiv_def block_equiv_refl run_block_equiv split: sum.splits)
  with stage3_equiv[of m x] show ?thesis by (rule model_equiv_trans)
qed

lemma stage5_equiv: "model_equiv m (snd (stage5 m x))"
proof -
  have "model_equiv (snd (stage4 m x)) (snd (stage5 m x))"
    by (simp add: stage5_snd model_equiv_def block_equiv_refl run_block_equiv split: sum.splits)
  with stage4_equiv[of m x] show ?thesis by (rule model_equiv_trans)
qed

lemma forward_equiv: "model_equiv m (snd (forward m x))"
  by (simp add: forward_snd stage5_equiv)

lemma run_block_conv: "conv (snd (run_block b x)) = conv b"
  using run_block_equiv[of b x] by (simp add: block_equiv_def)

lemma run_block_None: "norm b = None \<Longrightarrow> norm (snd (run_block b x)) = None"
  using run_block_equiv[of b x] by (auto dest: block_equiv_None)

lemma stage1_wf: "wf_Discriminator m \<Longrightarrow> wf_Discriminator (snd (stage1 m x))"
  by (simp add: stage1_snd wf_Discriminator_def run_block_conv run_block_None)

lemma stage2_wf: "wf_Discriminator m \<Longrightarrow> wf_Discriminator (snd (stage2 m x))"
  using stage1_wf[of m x]
  by (simp add: stage2_snd wf_Discriminator_def run_block_conv run_block_wf split: sum.splits)

lemma stage3_wf: "wf_Discriminator m \<Longrightarrow> wf_Discriminator (snd (stage3 m x))"
  using stage2_wf[of m x]
  by (simp add: stage3_snd wf_Discriminator_def run_block_conv run_block_wf split: sum.splits)

lemma stage4_wf: "wf_Discriminator m \<Longrightarrow> wf_Discriminator (snd (stage4 m x))"
  using stage3_wf[of m x]
  by (simp add: stage4_snd wf_Discriminator_def run_block_conv run_block_wf split: sum.splits)

lemma stage5_wf: "wf_Discriminator m \<Longrightarrow> wf_Discriminator (snd (stage5 m x))"
  using stage4_wf[of m x]
  by (simp add: stage5_snd wf_Discriminator_def run_block_conv run_block_wf split: sum.splits)

lemma forward_wf: "wf_Discriminator m \<Longrightarrow> wf_Discriminator (snd (forward m x))"
  by (simp add: forward_snd stage5_wf)

lemma stage1_cong:
  assumes "model_equiv a b"
  shows "fst (stage1 a x) = fst (stage1 b x)"
proof -
  from assms have "block_equiv (layer1 a) (layer1 b)" by (simp add: model_equiv_def)
  then show ?thesis by (simp add: stage1_fst run_block_cong)
qed

lemma stage2_cong:
  assumes "model_equiv a b"
  shows "fst (stage2 a x) = fst (stage2 b x)"
proof -
  have "model_equiv (snd (stage1 a x)) (snd (stage1 b x))"
    using assms stage1_equiv model_equiv_sym model_equiv_trans by blast
  then have "block_equiv (layer2 (snd (stage1 a x))) (layer2 (snd (stage1 b x)))"
    by (simp add: model_equiv_def)
  then have "\<And>y. fst (run_block (layer2 (snd (stage1 a x))) y) =
                fst (run_block (layer2 (snd (stage1 b x))) y)"
    by (rule run_block_cong)
  then show ?thesis
    by (simp add: stage2_fst stage1_cong[OF assms] cong: sum.case_cong)
qed

lemma stage3_cong:
  assumes "model_equiv a b"
  shows "fst (stage3 a x) = fst (stage3 b x)"
proof -
  have "model_equiv (snd (stage2 a x)) (snd (stage2 b x))"
    using assms stage2_equiv model_equiv_sym model_equiv_trans by blast
  then have "block_equiv (layer3 (snd (stage2 a x))) (layer3 (snd (stage2 b x)))"
    by (simp add: model_equiv_def)
  then have "\<And>y. fst (run_block (layer3 (snd (stage2 a x))) y) =
                fst (run_block (layer3 (snd (stage2 b x))) y)"
    by (rule run_block_cong)
  then show ?thesis
    by (simp add: stage3_fst stage2_cong[OF assms] cong: sum.case_cong)
qed

lemma stage4_cong:
  assumes "model_equiv a b"
  shows "fst (stage4 a x) = fst (stage4 b x)"
proof -
  have "model_equiv (snd (stage3 a x)) (snd (stage3 b x))"
    using assms stage3_equiv model_equiv_sym model_equiv_trans by blast
  then have "block_equiv (layer4 (snd (stage3 a x))) (layer4 (snd (stage3 b x)))"
    by (simp add: model_equiv_def)
  then have "\<And>y. fst (run_block (layer4 (snd (stage3 a x))) y) =
                fst (run_block (layer4 (snd (stage3 b x))) y)"
    by (rule run_block_cong)
  then show ?thesis
    by (simp add: stage4_fst stage3_cong[OF assms] cong: sum.case_cong)
qed

lemma stage5_cong:
  assumes "model_equiv a b"
  shows "fst (stage5 a x) = fst (stage5 b x)"
proof -
  have "model_equiv (snd (stage4 a x)) (snd (stage4 b x))"
    using assms stage4_equiv model_equiv_sym model_equiv_trans by blast
  then have "block_equiv (layer5 (snd (stage4 a x))) (layer5 (snd (stage4 b x)))"
    by (simp add: model_equiv_def)
  then have "\<And>y. fst (run_block (layer5 (snd (stage4 a x))) y) =
                fst (run_block (layer5 (snd (stage4 b x))) y)"
    by (rule run_block_cong)
  then show ?thesis
    by (simp add: stage5_fst stage4_cong[OF assms] cong: sum.case_cong)
qed

lemma pooled_fst:
  "fst (pooled m x) =
     (case fst (stage5 m x) of
        Inl e \<Rightarrow> Inl e
      | Inr x5 \<Rightarrow>
          (case avg_pool2d 16 x5 of
             Inl e \<Rightarrow> Inl e
           | Inr x6 \<Rightarrow>
               (case flatten x6 of
                  Inl e \<Rightarrow> Inl e
                | Inr fl \<Rightarrow> assert_shape FlattenShape [512] fl)))"
  by (simp add: pooled_def split: prod.splits sum.splits)

lemma forward_fst:
  "fst (forward m x) =
     (case fst (pooled m x) of
        Inl e \<Rightarrow> Inl e
      | Inr fl \<Rightarrow>
          (case run_head (probabilities (snd (stage5 m x))) fl of
             Inl e \<Rightarrow> Inl e
           | Inr ps \<Rightarrow>
               (if tl (shape ps) \<noteq> [1] then Inl (AssertionError ProbabilitiesShape (shape ps))
                else
                  (case run_head (styles (snd (stage5 m x))) fl of
                     Inl e \<Rightarrow> Inl e
                   | Inr st \<Rightarrow>
                       (if map int (tl (shape st)) \<noteq> [style_classes (snd (stage5 m x))]
                        then Inl (AssertionError StylesShape (shape st))
                        else Inr (ps, st))))))"
  by (simp add: forward_def pooled_snd[symmetric] split: prod.splits sum.splits)

lemma forward_cong:
  assumes "model_equiv a b"
  shows "fst (forward a x) = fst (forward b x)"
proof -
  have "model_equiv (snd (stage5 a x)) (snd (stage5 b x))"
    using assms stage5_equiv model_equiv_sym model_equiv_trans by blast
  then have "probabilities (snd (stage5 a x)) = probabilities (snd (stage5 b x))"
    "styles (snd (stage5 a x)) = styles (snd (stage5 b x))"
    "style_classes (snd (stage5 a x)) = style_classes (snd (stage5 b x))"
    by (simp_all add: model_equiv_def)
  then show ?thesis
    by (simp add: forward_fst pooled_fst stage5_cong[OF assms] cong: sum.case_cong if_cong)
qed

lemma run_block_ok_fst:
  assumes "wf_Conv2d (conv b) cin cout k s p" and "norm b = None \<or> wf_BatchNorm2d (norm b) cout"
    and "shape x = [N, cin, H, W]"
    and "0 < s" and "k \<le> H + 2 * p" and "k \<le> W + 2 * p"
    and "N * conv_out H k s p * conv_out W k s p \<noteq> 1"
  shows "\<exists>y. fst (run_block b x) = Inr y \<and>
           shape y = [N, cout, conv_out H k s p, conv_out W k s p] \<and> wf_tensor y \<and>
           leaves y = leaves x \<union> param_leaves (block_parameters b)"
  using run_block_ok[OF assms] by force

lemma stage1_frame:
  "layer2 (snd (stage1 m x)) = layer2 m \<and> layer3 (snd (stage1 m x)) = layer3 m \<and> layer4 (snd (stage1 m x)) = layer4 m \<and> layer5 (snd (stage1 m x)) = layer5 m"
  by (simp add: stage1_snd)

lemma stage2_frame:
  "layer3 (snd (stage2 m x)) = layer3 m \<and> layer4 (snd (stage2 m x)) = layer4 m \<and> layer5 (snd (stage2 m x)) = layer5 m"
  using stage1_frame[of m x] by (simp add: stage2_snd split: sum.splits)

lemma stage3_frame:
  "layer4 (snd (stage3 m x)) = layer4 m \<and> layer5 (snd (stage3 m x)) = layer5 m"
  using stage2_frame[of m x] by (simp add: stage3_snd split: sum.splits)

lemma stage4_frame:
  "layer5 (snd (stage4 m x)) = layer5 m"
  using stage3_frame[of m x] by (simp add: stage4_snd split: sum.splits)

lemma stage2_keeps1: "layer1 (snd (stage2 m x)) = layer1 (snd (stage1 m x))"
  by (simp add: stage2_snd split: sum.splits)

lemma stage3_keeps1: "layer1 (snd (stage3 m x)) = layer1 (snd (stage1 m x))"
  using stage2_keeps1[of m x] by (simp add: stage3_snd split: sum.splits)

lemma stage4_keeps1: "layer1 (snd (stage4 m x)) = layer1 (snd (stage1 m x))"
  using stage3_keeps1[of m x] by (simp add: stage4_snd split: sum.splits)

lemma stage5_keeps1: "layer1 (snd (stage5 m x)) = layer1 (snd (stage1 m x))"
  using stage4_keeps1[of m x] by (simp add: stage5_snd split: sum.splits)

lemma stage3_keeps2: "layer2 (snd (stage3 m x)) = layer2 (snd (stage2 m x))"
  by (simp add: stage3_snd split: sum.splits)

lemma stage4_keeps2: "layer2 (snd (stage4 m x)) = layer2 (snd (stage2 m x))"
  using stage3_keeps2[of m x] by (simp add: stage4_snd split: sum.splits)

lemma stage5_keeps2: "layer2 (snd (stage5 m x)) = layer2 (snd (stage2 m x))"
  using stage4_keeps2[of m x] by (simp add: stage5_snd split: sum.splits)

lemma stage4_keeps3: "layer3 (snd (stage4 m x)) = layer3 (snd (stage3 m x))"
  by (simp add: stage4_snd split: sum.splits)

lemma stage5_keeps3: "layer3 (snd (stage5 m x)) = layer3 (snd (stage3 m x))"
  using stage4_keeps3[of m x] by (simp add: stage5_snd split: sum.splits)

lemma stage5_keeps4: "layer4 (snd (stage5 m x)) = layer4 (snd (stage4 m x))"
  by (simp add: stage5_snd split: sum.splits)

lemma stage1_ok:
  assumes wf: "wf_Discriminator m" and x: "shape x = [N, 3, 256, 256]"
  shows "\<exists>z. fst (run_block (layer1 m) x) = Inr z \<and> fst (stage1 m x) = Inr z \<and>
           layer1 (snd (stage1 m x)) = snd (run_block (layer1 m) x) \<and>
           shape z = [N, 64, 128, 128] \<and> wf_tensor z \<and>
           leaves z = leaves x \<union> param_leaves (block_parameters (layer1 m))"
proof -
  from wf have c: "wf_Conv2d (conv (layer1 m)) 3 64 4 2 1" and n: "norm (layer1 m) = None"
    by (simp_all add: wf_Discriminator_def)
  have "\<exists>y. fst (run_block (layer1 m) x) = Inr y \<and>
           shape y = [N, 64, conv_out 256 4 2 1, conv_out 256 4 2 1] \<and> wf_tensor y \<and>
           leaves y = leaves x \<union> param_leaves (block_parameters (layer1 m))"
    using n x by (intro run_block_ok_fst[OF c]) (simp_all add: conv_out_def)
  then obtain y where
    y: "fst (run_block (layer1 m) x) = Inr y" "shape y = [N, 64, 128, 128]" "wf_tensor y"
       "leaves y = leaves x \<union> param_leaves (block_parameters (layer1 m))"
    by (auto simp add: conv_out_def)
  with x show ?thesis
    by (simp add: stage1_fst stage1_snd assert_shape_ok)
qed

lemma stage2_ok:
  assumes wf: "wf_Discriminator m" and x: "shape x = [N, 3, 256, 256]"
  shows "\<exists>y z. fst (stage1 m x) = Inr y \<and> shape y = [N, 64, 128, 128] \<and>
           fst (run_block (layer2 m) y) = Inr z \<and> fst (stage2 m x) = Inr z \<and>
           layer2 (snd (stage2 m x)) = snd (run_block (layer2 m) y) \<and>
           shape z = [N, 128, 64, 64] \<and> wf_tensor z \<and>
           leaves z = leaves x \<union> param_leaves (block_parameters (layer1 m)) \<union> param_leaves (block_parameters (layer2 m))"
proof -
  from stage1_ok[OF wf x] obtain y where
    y: "fst (stage1 m x) = Inr y" "shape y = [N, 64, 128, 128]"
       "leaves y = leaves x \<union> param_leaves (block_parameters (layer1 m))"
    by blast
  from wf have c: "wf_Conv2d (conv (layer2 m)) 64 128 4 2 1"
    and n: "wf_BatchNorm2d (norm (layer2 m)) 128"
    by (simp_all add: wf_Discriminator_def)
  have "\<exists>z. fst (run_block (layer2 m) y) = Inr z \<and>
           shape z = [N, 128, conv_out 128 4 2 1, conv_out 128 4 2 1] \<and> wf_tensor z \<and>
           leaves z = leaves y \<union> param_leaves (block_parameters (layer2 m))"
    using n y(2) by (intro run_block_ok_fst[OF c]) (simp_all add: conv_out_def)
  then obtain z where
    z: "fst (run_block (layer2 m) y) = Inr z" "shape z = [N, 128, 64, 64]" "wf_tensor z"
       "leaves z = leaves y \<union> param_leaves (block_parameters (layer2 m))"
    by (auto simp add: conv_out_def)
  have f: "layer2 (snd (stage1 m x)) = layer2 m"
    using stage1_frame[of m x] by simp
  from y z f show ?thesis
    by (simp add: stage2_fst stage2_snd assert_shape_ok Un_assoc)
qed

lemma stage3_ok:
  assumes wf: "wf_Discriminator m" and x: "shape x = [N, 3, 256, 256]"
  shows "\<exists>y z. fst (stage2 m x) = Inr y \<and> shape y = [N, 128, 64, 64] \<and>
           fst (run_block (layer3 m) y) = Inr z \<and> fst (stage3 m x) = Inr z \<and>
           layer3 (snd (stage3 m x)) = snd (run_block (layer3 m) y) \<and>
           shape z = [N, 256, 32, 32] \<and> wf_tensor z \<and>
           leaves z = leaves x \<union> param_leaves (block_parameters (layer1 m)) \<union> param_leaves (block_parameters (layer2 m)) \<union> param_leaves (block_parameters (layer3 m))"
proof -
  from stage2_ok[OF wf x] obtain y where
    y: "fst (stage2 m x) = Inr y" "shape y = [N, 128, 64, 64]"
       "leaves y = leaves x \<union> param_leaves (block_parameters (layer1 m)) \<union> param_leaves (block_parameters (layer2 m))"
    by blast
  from wf have c: "wf_Conv2d (conv (layer3 m)) 128 256 4 2 1"
    and n: "wf_BatchNorm2d (norm (layer3 m)) 256"
    by (simp_all add: wf_Discriminator_def)
  have "\<exists>z. fst (run_block (layer3 m) y) = Inr z \<and>
           shape z = [N, 256, conv_out 64 4 2 1, conv_out 64 4 2 1] \<and> wf_tensor z \<and>
           leaves z = leaves y \<union> param_leaves (block_parameters (layer3 m))"
    using n y(2) by (intro run_block_ok_fst[OF c]) (simp_all add: conv_out_def)
  then obtain z where
    z: "fst (run_block (layer3 m) y) = Inr z" "shape z = [N, 256, 32, 32]" "wf_tensor z"
       "leaves z = leaves y \<union> param_leaves (block_parameters (layer3 m))"
    by (auto simp add: conv_out_def)
  have f: "layer3 (snd (stage2 m x)) = layer3 m"
    using stage2_frame[of m x] by simp
  from y z f show ?thesis
    by (simp add: stage3_fst stage3_snd assert_shape_ok Un_assoc)
qed

lemma stage4_ok:
  assumes wf: "wf_Discriminator m" and x: "shape x = [N, 3, 256, 256]"
  shows "\<exists>y z. fst (stage3 m x) = Inr y \<and> shape y = [N, 256, 32, 32] \<and>
           fst (run_block (layer4 m) y) = Inr z \<and> fst (stage4 m x) = Inr z \<and>
           layer4 (snd (stage4 m x)) = snd (run_block (layer4 m) y) \<and>
           shape z = [N, 512, 16, 16] \<and> wf_tensor z \<and>
           leaves z = leaves x \<union> param_leaves (block_parameters (layer1 m)) \<union> param_leaves (block_parameters (layer2 m)) \<union> param_leaves (block_parameters (layer3 m)) \<union> param_leaves (block_parameters (layer4 m))"
proof -
  from stage3_ok[OF wf x] obtain y where
    y: "fst (stage3 m x) = Inr y" "shape y = [N, 256, 32, 32]"
       "leaves y = leaves x \<union> param_leaves (block_parameters (layer1 m)) \<union> param_leaves (block_parameters (layer2 m)) \<union> param_leaves (block_parameters (layer3 m))"
    by blast
  from wf have c: "wf_Conv2d (conv (layer4 m)) 256 512 4 2 1"
    and n: "wf_BatchNorm2d (norm (layer4 m)) 512"
    by (simp_all add: wf_Discriminator_def)
  have "\<exists>z. fst (run_block (layer4 m) y) = Inr z \<and>
           shape z = [N, 512, conv_out 32 4 2 1, conv_out 32 4 2 1] \<and> wf_tensor z \<and>
           leaves z = leaves y \<union> param_leaves (block_parameters (layer4 m))"
    using n y(2) by (intro run_block_ok_fst[OF c]) (simp_all add: conv_out_def)
  then obtain z where
    z: "fst (run_block (layer4 m) y) = Inr z" "shape z = [N, 512, 16, 16]" "wf_tensor z"
       "leaves z = leaves y \<union> param_leaves (block_parameters (layer4 m))"
    by (auto simp add: conv_out_def)
  have f: "layer4 (snd (stage3 m x)) = layer4 m"
    using stage3_frame[of m x] by simp
  from y z f show ?thesis
    by (simp add: stage4_fst stage4_snd assert_shape_ok Un_assoc)
qed

lemma stage5_ok:
  assumes wf: "wf_Discriminator m" and x: "shape x = [N, 3, 256, 256]"
  shows "\<exists>y z. fst (stage4 m x) = Inr y \<and> shape y = [N, 512, 16, 16] \<and>
           fst (run_block (layer5 m) y) = Inr z \<and> fst (stage5 m x) = Inr z \<and>
           layer5 (snd (stage5 m x)) = snd (run_block (layer5 m) y) \<and>
           shape z = [N, 512, 16, 16] \<and> wf_tensor z \<and>
           leaves z = leaves x \<union> param_leaves (block_parameters (layer1 m)) \<union> param_leaves (block_parameters (layer2 m)) \<union> param_leaves (block_parameters (layer3 m)) \<union> param_leaves (block_parameters (layer4 m)) \<union> param_leaves (block_parameters (layer5 m))"
proof -
  from stage4_ok[OF wf x] obtain y where
    y: "fst (stage4 m x) = Inr y" "shape y = [N, 512, 16, 16]"
       "leaves y = leaves x \<union> param_leaves (block_parameters (layer1 m)) \<union> param_leaves (block_parameters (layer2 m)) \<union> param_leaves (block_parameters (layer3 m)) \<union> param_leaves (block_parameters (layer4 m))"
    by blast
  from wf have c: "wf_Conv2d (conv (layer5 m)) 512 512 3 1 1"
    and n: "wf_BatchNorm2d (norm (layer5 m)) 512"
    by (simp_all add: wf_Discriminator_def)
  have "\<exists>z. fst (run_block (layer5 m) y) = Inr z \<and>
           shape z = [N, 512, conv_out 16 3 1 1, conv_out 16 3 1 1] \<and> wf_tensor z \<and>
           leaves z = leaves y \<union> param_leaves (block_parameters (layer5 m))"
    using n y(2) by (intro run_block_ok_fst[OF c]) (simp_all add: conv_out_def)
  then obtain z where
    z: "fst (run_block (layer5 m) y) = Inr z" "shape z = [N, 512, 16, 16]" "wf_tensor z"
       "leaves z = leaves y \<union> param_leaves (block_parameters (layer5 m))"
    by (auto simp add: conv_out_def)
  have f: "layer5 (snd (stage4 m x)) = layer5 m"
    using stage4_frame[of m x] by simp
  from y z f show ?thesis
    by (simp add: stage5_fst stage5_snd assert_shape_ok Un_assoc)
qed

subsection \<open>Softmax, sigmoid, pooling and the heads\<close>

lemma flat_index_less: "n < N \<Longrightarrow> c < (k::nat) \<Longrightarrow> n * k + c < N * k"
proof -
  assume n: "n < N" and c: "c < k"
  have "n * k + c < n * k + k" using c by simp
  also have "\<dots> = Suc n * k" by simp
  also have "\<dots> \<le> N * k" using n by (intro mult_le_mono1) simp
  finally show ?thesis .
qed

lemma at2_simp: "shape t = [R, F] \<Longrightarrow> at2 t r i = storage t ! (r * F + i)"
  by (simp add: at2_def)

lemma at4_simp:
  "shape t = [N, C, H, W] \<Longrightarrow> at4 t n c h w = storage t ! (((n * C + c) * H + h) * W + w)"
  by (simp add: at4_def)

lemma softmax0_2d:
  assumes s: "shape x = [N, k]" and wf: "wf_tensor x"
  shows "\<exists>y. softmax 0 x = Inr y \<and> shape y = [N, k] \<and> wf_tensor y \<and> leaves y = leaves x \<and>
           (\<forall>n<N. \<forall>c<k. at2 y n c = exp (at2 x n c) / (\<Sum>m\<leftarrow>[0..<N]. exp (at2 x m c)))"
proof -
  define y where "y = x\<lparr>storage :=
       map (\<lambda>idx. exp (storage x ! idx) /
              (\<Sum>m\<leftarrow>[0..<N]. exp (storage x ! ((idx div (N * k)) * (N * k) + m * k + idx mod k))))
         [0..<length (storage x)]\<rparr>"
  have sm: "softmax 0 x = Inr y"
    using s by (simp add: softmax_def y_def Let_def)
  have len: "length (storage x) = N * k" using s wf by (simp add: wf_tensor_def)
  have sy: "shape y = [N, k]" "leaves y = leaves x" using s by (simp_all add: y_def)
  have wy: "wf_tensor y" using s len by (simp add: y_def wf_tensor_def)
  have "at2 y n c = exp (at2 x n c) / (\<Sum>m\<leftarrow>[0..<N]. exp (at2 x m c))"
    if n: "n < N" and c: "c < k" for n c
  proof -
    have lt: "n * k + c < N * k" using n c by (rule flat_index_less)
    have d: "(n * k + c) div (N * k) = 0" using lt by simp
    have md: "(n * k + c) mod k = c" using c by simp
    have "at2 y n c = storage y ! (n * k + c)" using sy by (simp add: at2_simp)
    also have "\<dots> = exp (storage x ! (n * k + c)) /
        (\<Sum>m\<leftarrow>[0..<N]. exp (storage x ! (m * k + c)))"
      using lt d md by (simp add: y_def len)
    finally show ?thesis using s by (simp add: at2_simp)
  qed
  with sm sy wy show ?thesis by blast
qed




lemma avg_pool2d_global:
  assumes s: "shape x = [N, C, k, k]" and k: "0 < k"
  shows "\<exists>y. avg_pool2d k x = Inr y \<and> shape y = [N, C, 1, 1] \<and> wf_tensor y \<and>
           leaves y = leaves x \<and>
           (\<forall>n<N. \<forall>c<C. storage y ! (n * C + c) =
              (\<Sum>a\<leftarrow>[0..<k]. \<Sum>b\<leftarrow>[0..<k]. at4 x n c a b) / real (k * k))"
proof -
  define y where "y = \<lparr>shape = [N, C, 1, 1],
      storage = map (\<lambda>idx. case unravel4 C 1 1 idx of (n, c, i, j) \<Rightarrow>
                     (\<Sum>a\<leftarrow>[0..<k]. \<Sum>b\<leftarrow>[0..<k]. at4 x n c (i * k + a) (j * k + b)) / real (k * k))
                  [0..<N * C * 1 * 1],
      leaves = leaves x\<rparr>"
  have ap: "avg_pool2d k x = Inr y"
    using s k by (simp add: avg_pool2d_def y_def)
  have sy: "shape y = [N, C, 1, 1]" "leaves y = leaves x" "wf_tensor y"
    by (simp_all add: y_def wf_tensor_def)
  have "storage y ! (n * C + c) = (\<Sum>a\<leftarrow>[0..<k]. \<Sum>b\<leftarrow>[0..<k]. at4 x n c a b) / real (k * k)"
    if n: "n < N" and c: "c < C" for n c
  proof -
    have lt: "n * C + c < N * C" using n c by (rule flat_index_less)
    have u: "unravel4 C 1 1 (n * C + c) = (n, c, 0, 0)" using c by (simp add: unravel4_def)
    show ?thesis using lt u by (simp add: y_def)
  qed
  with ap sy show ?thesis by blast
qed

lemma flatten_pooled:
  "shape x = [N, C, 1, 1] \<Longrightarrow> flatten x = Inr (x\<lparr>shape := [N, C]\<rparr>)"
  by (simp add: flatten_def)

lemma pooled_ok:
  assumes wf: "wf_Discriminator m" and x: "shape x = [N, 3, 256, 256]"
  shows "\<exists>x5 x6 fl. fst (stage5 m x) = Inr x5 \<and> shape x5 = [N, 512, 16, 16] \<and>
           avg_pool2d 16 x5 = Inr x6 \<and> shape x6 = [N, 512, 1, 1] \<and> flatten x6 = Inr fl \<and>
           fst (pooled m x) = Inr fl \<and> shape fl = [N, 512] \<and> wf_tensor fl \<and>
           leaves fl = leaves x5 \<and>
           (\<forall>n<N. \<forall>c<512. at2 fl n c =
              (\<Sum>a\<leftarrow>[0..<16]. \<Sum>b\<leftarrow>[0..<16]. at4 x5 n c a b) / 256)"
proof -
  from stage5_ok[OF wf x] obtain x5 where
    x5: "fst (stage5 m x) = Inr x5" "shape x5 = [N, 512, 16, 16]"
    by blast
  from avg_pool2d_global[OF x5(2)] obtain x6 where
    x6: "avg_pool2d 16 x5 = Inr x6" "shape x6 = [N, 512, 1, 1]" "wf_tensor x6"
        "leaves x6 = leaves x5"
        "\<forall>n<N. \<forall>c<512. storage x6 ! (n * 512 + c) =
              (\<Sum>a\<leftarrow>[0..<16]. \<Sum>b\<leftarrow>[0..<16]. at4 x5 n c a b) / real (16 * 16)"
    by auto
  define fl where "fl = x6\<lparr>shape := [N, 512]\<rparr>"
  have f: "flatten x6 = Inr fl" using x6(2) by (simp add: flatten_pooled fl_def)
  have sf: "shape fl = [N, 512]" "leaves fl = leaves x5" "wf_tensor fl"
    using x6 by (simp_all add: fl_def wf_tensor_def)
  have v: "\<forall>n<N. \<forall>c<512. at2 fl n c =
              (\<Sum>a\<leftarrow>[0..<16]. \<Sum>b\<leftarrow>[0..<16]. at4 x5 n c a b) / 256"
    using x6(5) by (simp add: at2_def fl_def)
  have "fst (pooled m x) = Inr fl"
    using x5 x6(1) f sf(1) by (simp add: pooled_fst assert_shape_ok)
  with x5 x6(1,2) f sf v show ?thesis by blast
qed

lemma linear_2d:
  assumes w: "wf_parameter (lin_weight l) [out, inn]" and b: "wf_parameter (lin_bias l) [out]"
    and s: "shape x = [R, inn]"
  shows "\<exists>y. linear l x = Inr y \<and> shape y = [R, out] \<and> wf_tensor y \<and>
           leaves y = leaves x \<union> param_leaves [lin_weight l, lin_bias l]"
  using assms
  by (simp add: linear_def wf_parameter_def wf_tensor_def param_leaves_def Un_assoc)

lemma sigmoid_simps:
  "shape (sigmoid x) = shape x" "leaves (sigmoid x) = leaves x"
  "wf_tensor (sigmoid x) = wf_tensor x"
  "storage (sigmoid x) = map (\<lambda>v. 1 / (1 + exp (- v))) (storage x)"
  by (simp_all add: sigmoid_def wf_tensor_def)

lemma stage5_heads:
  "probabilities (snd (stage5 m x)) = probabilities m"
  "styles (snd (stage5 m x)) = styles m"
  "style_classes (snd (stage5 m x)) = style_classes m"
  using stage5_equiv[of m x] by (simp_all add: model_equiv_def)

lemma forward_ok:
  assumes wf: "wf_Discriminator m" and x: "shape x = [N, 3, 256, 256]"
  shows "\<exists>fl lp ls st. fst (pooled m x) = Inr fl \<and>
           linear (fc (probabilities m)) fl = Inr lp \<and> shape lp = [N, 1] \<and> wf_tensor lp \<and>
           linear (fc (styles m)) fl = Inr ls \<and> shape ls = [N, nat (style_classes m)] \<and>
           wf_tensor ls \<and> softmax 0 ls = Inr st \<and>
           leaves lp = leaves fl \<union> param_leaves (head_parameters (probabilities m)) \<and>
           leaves ls = leaves fl \<union> param_leaves (head_parameters (styles m)) \<and>
           fst (forward m x) = Inr (sigmoid lp, st)"
proof -
  from pooled_ok[OF wf x] obtain fl where
    fl: "fst (pooled m x) = Inr fl" "shape fl = [N, 512]"
    by blast
  from wf have p: "wf_Head (probabilities m) 512 1 Sigmoid"
    and k: "0 \<le> style_classes m"
    and s: "wf_Head (styles m) 512 (nat (style_classes m)) (Softmax 0)"
    by (simp_all add: wf_Discriminator_def)
  from p fl(2) have "\<exists>y. linear (fc (probabilities m)) fl = Inr y \<and> shape y = [N, 1] \<and> wf_tensor y \<and>
           leaves y = leaves fl \<union> param_leaves [lin_weight (fc (probabilities m)), lin_bias (fc (probabilities m))]"
    by (intro linear_2d) (simp_all add: wf_Head_def)
  then obtain lp where
    lp: "linear (fc (probabilities m)) fl = Inr lp" "shape lp = [N, 1]" "wf_tensor lp"
        "leaves lp = leaves fl \<union> param_leaves (head_parameters (probabilities m))"
    by (auto simp add: head_parameters_def)
  from s fl(2) have "\<exists>y. linear (fc (styles m)) fl = Inr y \<and> shape y = [N, nat (style_classes m)] \<and> wf_tensor y \<and>
           leaves y = leaves fl \<union> param_leaves [lin_weight (fc (styles m)), lin_bias (fc (styles m))]"
    by (intro linear_2d) (simp_all add: wf_Head_def)
  then obtain ls where
    ls: "linear (fc (styles m)) fl = Inr ls" "shape ls = [N, nat (style_classes m)]" "wf_tensor ls"
        "leaves ls = leaves fl \<union> param_leaves (head_parameters (styles m))"
    by (auto simp add: head_parameters_def)
  from softmax0_2d[OF ls(2,3)] obtain st where
    st: "softmax 0 ls = Inr st" "shape st = [N, nat (style_classes m)]"
    by blast
  have ap: "activation (probabilities m) = Sigmoid" "activation (styles m) = Softmax 0"
    using p s by (simp_all add: wf_Head_def)
  have "fst (forward m x) = Inr (sigmoid lp, st)"
    using fl(1) lp(1,2) ls(1) st ap k
    by (simp add: forward_fst stage5_heads run_head_def sigmoid_simps)
  with fl(1) lp ls st(1) show ?thesis by blast
qed

subsection \<open>The constructor\<close>

lemma new_parameter_wf: "wf_parameter (new_parameter name shp f) shp"
  by (simp add: new_parameter_def wf_parameter_def)

lemma new_Conv2d_wf: "wf_Conv2d (new_Conv2d name cin cout (k, k) (s, s) (p, p) rng) cin cout k s p"
  by (simp add: new_Conv2d_def wf_Conv2d_def new_parameter_wf)

lemma new_BatchNorm2d_wf: "wf_BatchNorm2d (Some (new_BatchNorm2d name n)) n"
  by (simp add: new_BatchNorm2d_def wf_BatchNorm2d_def new_parameter_wf)

lemma new_Linear_wf:
  "new_Linear name i out rng = Inr l \<Longrightarrow>
     wf_parameter (lin_weight l) [nat out, nat i] \<and> wf_parameter (lin_bias l) [nat out]"
  by (auto simp add: new_Linear_def new_parameter_wf split: if_splits)


lemma init_succeeds:
  "0 \<le> k \<Longrightarrow> \<exists>m. Discriminator_init s k rng = Inr m \<and> style_classes m = k"
  by (simp add: Discriminator_init_def new_Linear_def)

lemma init_wf:
  assumes "Discriminator_init s k rng = Inr m"
  shows "wf_Discriminator m"
proof -
  from assms obtain pl sl where
    pl: "new_Linear ''probabilities.0'' 512 1 rng = Inr pl" and
    sl: "new_Linear ''styles.0'' 512 k rng = Inr sl" and
    m: "m = \<lparr>style_classes = k,
          layer1 = \<lparr>conv = new_Conv2d ''layer1.0'' 3 64 (4, 4) (2, 2) (1, 1) rng,
                    norm = None, negative_slope = s\<rparr>,
          layer2 = \<lparr>conv = new_Conv2d ''layer2.0'' 64 128 (4, 4) (2, 2) (1, 1) rng,
                    norm = Some (new_BatchNorm2d ''layer2.1'' 128), negative_slope = s\<rparr>,
          layer3 = \<lparr>conv = new_Conv2d ''layer3.0'' 128 256 (4, 4) (2, 2) (1, 1) rng,
                    norm = Some (new_BatchNorm2d ''layer3.1'' 256), negative_slope = s\<rparr>,
          layer4 = \<lparr>conv = new_Conv2d ''layer4.0'' 256 512 (4, 4) (2, 2) (1, 1) rng,
                    norm = Some (new_BatchNorm2d ''layer4.1'' 512), negative_slope = s\<rparr>,
          layer5 = \<lparr>conv = new_Conv2d ''layer5.0'' 512 512 (3, 3) (1, 1) (1, 1) rng,
                    norm = Some (new_BatchNorm2d ''layer5.1'' 512), negative_slope = s\<rparr>,
          probabilities = \<lparr>fc = pl, activation = Sigmoid\<rparr>,
          styles = \<lparr>fc = sl, activation = Softmax 0\<rparr>\<rparr>"
    by (auto simp add: Discriminator_init_def Let_def split: sum.splits)
  from sl have k: "0 \<le> k" by (simp add: new_Linear_def split: if_splits)
  from new_Linear_wf[OF pl] new_Linear_wf[OF sl] k show ?thesis
    by (simp add: m wf_Discriminator_def new_Conv2d_wf new_BatchNorm2d_wf wf_Head_def)
qed

lemma example_model_init: "Discriminator_init (1 / 5) 3 zeros_rng = Inr example_model"
  using init_succeeds[of 3 "1 / 5" zeros_rng] by (auto simp add: example_model_def)

lemma example_model_wf: "wf_Discriminator example_model"
  using example_model_init by (rule init_wf)


lemma example_batch_shape: "shape (example_batch n) = [n, 3, 256, 256]"
  by (simp add: example_batch_def)



lemma init_layer5:
  assumes "Discriminator_init s k rng = Inr m"
  shows "conv (layer5 m) = new_Conv2d ''layer5.0'' 512 512 (3, 3) (1, 1) (1, 1) rng"
  using assms by (auto simp add: Discriminator_init_def Let_def split: sum.splits)

lemma five_stage_shapes:
  assumes "wf_Discriminator m" and "shape x = [N, 3, 256, 256]"
  shows "\<exists>x1 x2 x3 x4 x5.
           fst (stage1 m x) = Inr x1 \<and> shape x1 = [N, 64, 128, 128] \<and>
           fst (stage2 m x) = Inr x2 \<and> shape x2 = [N, 128, 64, 64] \<and>
           fst (stage3 m x) = Inr x3 \<and> shape x3 = [N, 256, 32, 32] \<and>
           fst (stage4 m x) = Inr x4 \<and> shape x4 = [N, 512, 16, 16] \<and>
           fst (stage5 m x) = Inr x5 \<and> shape x5 = [N, 512, 16, 16]"
proof -
  from stage1_ok[OF assms] obtain x1 where
    "fst (stage1 m x) = Inr x1" "shape x1 = [N, 64, 128, 128]" by blast
  moreover from stage2_ok[OF assms] obtain x2 where
    "fst (stage2 m x) = Inr x2" "shape x2 = [N, 128, 64, 64]" by blast
  moreover from stage3_ok[OF assms] obtain x3 where
    "fst (stage3 m x) = Inr x3" "shape x3 = [N, 256, 32, 32]" by blast
  moreover from stage4_ok[OF assms] obtain x4 where
    "fst (stage4 m x) = Inr x4" "shape x4 = [N, 512, 16, 16]" by blast
  moreover from stage5_ok[OF assms] obtain x5 where
    "fst (stage5 m x) = Inr x5" "shape x5 = [N, 512, 16, 16]" by blast
  ultimately show ?thesis by blast
qed

subsection \<open>Further properties of the forward pass\<close>

lemma run_head_sigmoid:
  "activation h = Sigmoid \<Longrightarrow> linear (fc h) x = Inr y \<Longrightarrow> run_head h x = Inr (sigmoid y)"
  by (simp add: run_head_def)

lemma run_head_softmax:
  "activation h = Softmax d \<Longrightarrow> linear (fc h) x = Inr y \<Longrightarrow> run_head h x = softmax d y"
  by (simp add: run_head_def)

lemma wf_activations:
  "wf_Discriminator m \<Longrightarrow>
     activation (probabilities m) = Sigmoid \<and> activation (styles m) = Softmax 0"
  by (simp add: wf_Discriminator_def wf_Head_def)

lemma valid_shape: "tl (shape x) = [3, 256, 256] \<Longrightarrow> \<exists>N. shape x = [N, 3, 256, 256]"
  by (cases "shape x") simp_all

lemma batch_norm_trained:
  assumes "bn_training bn" and "shape y = [N, num_features bn, H, W]"
    and "N * H * W \<noteq> 1" and "N * num_features bn * H * W \<noteq> 0"
  shows "snd (batch_norm bn y) =
           update_stats (bn\<lparr>num_batches_tracked := num_batches_tracked bn + 1\<rparr>) y"
  using assms by (auto simp add: batch_norm_4d[OF assms(2)] Let_def)

lemma run_block_trained:
  assumes "wf_Conv2d (conv b) cin cout k s p" and "norm b = Some bn"
    and "num_features bn = cout" and "bn_training bn"
    and "shape x = [N, cin, H, W]"
    and "0 < s" and "k \<le> H + 2 * p" and "k \<le> W + 2 * p"
    and "N * conv_out H k s p * conv_out W k s p \<noteq> 1"
    and "N * cout * conv_out H k s p * conv_out W k s p \<noteq> 0"
  shows "\<exists>y. conv2d (conv b) x = Inr y \<and>
           norm (snd (run_block b x)) =
             Some (update_stats (bn\<lparr>num_batches_tracked := num_batches_tracked bn + 1\<rparr>) y)"
proof -
  from conv2d_ok[OF assms(1,5,6,7,8)] obtain y where
    y: "conv2d (conv b) x = Inr y" "shape y = [N, cout, conv_out H k s p, conv_out W k s p]"
    by blast
  from y(2) assms(3) have s: "shape y = [N, num_features bn, conv_out H k s p, conv_out W k s p]"
    by simp
  from assms(3,10) have nz: "N * num_features bn * conv_out H k s p * conv_out W k s p \<noteq> 0"
    by simp
  from batch_norm_trained[OF assms(4) s assms(9) nz] y(1) assms(2) show ?thesis
    by (simp add: run_block_snd)
qed

lemma stage2_trained:
  assumes wf: "wf_Discriminator m" and x: "shape x = [N, 3, 256, 256]" and n: "1 \<le> N"
    and bn: "norm (layer2 m) = Some bn" "bn_training bn"
  shows "\<exists>xp y. fst (stage1 m x) = Inr xp \<and> conv2d (conv (layer2 m)) xp = Inr y \<and>
           norm (layer2 (snd (forward m x))) =
             Some (update_stats (bn\<lparr>num_batches_tracked := num_batches_tracked bn + 1\<rparr>) y)"
proof -
  from stage2_ok[OF wf x] obtain xp where
    xp: "fst (stage1 m x) = Inr xp" "shape xp = [N, 64, 128, 128]"
        "layer2 (snd (stage2 m x)) = snd (run_block (layer2 m) xp)"
    by blast
  from wf have c: "wf_Conv2d (conv (layer2 m)) 64 128 4 2 1"
    and w: "wf_BatchNorm2d (norm (layer2 m)) 128"
    by (simp_all add: wf_Discriminator_def)
  from w bn(1) have nf: "num_features bn = 128" by (simp add: wf_BatchNorm2d_def)
  have "\<exists>y. conv2d (conv (layer2 m)) xp = Inr y \<and>
           norm (snd (run_block (layer2 m) xp)) =
             Some (update_stats (bn\<lparr>num_batches_tracked := num_batches_tracked bn + 1\<rparr>) y)"
    using n by (intro run_block_trained[OF c bn(1) nf bn(2) xp(2)]) (simp_all add: conv_out_def)
  then obtain y where
    y: "conv2d (conv (layer2 m)) xp = Inr y"
       "norm (snd (run_block (layer2 m) xp)) =
          Some (update_stats (bn\<lparr>num_batches_tracked := num_batches_tracked bn + 1\<rparr>) y)"
    by blast
  have "layer2 (snd (forward m x)) = snd (run_block (layer2 m) xp)"
    using xp(3) by (simp add: forward_snd stage5_keeps2)
  with xp(1) y show ?thesis by auto
qed

lemma stage3_trained:
  assumes wf: "wf_Discriminator m" and x: "shape x = [N, 3, 256, 256]" and n: "1 \<le> N"
    and bn: "norm (layer3 m) = Some bn" "bn_training bn"
  shows "\<exists>xp y. fst (stage2 m x) = Inr xp \<and> conv2d (conv (layer3 m)) xp = Inr y \<and>
           norm (layer3 (snd (forward m x))) =
             Some (update_stats (bn\<lparr>num_batches_tracked := num_batches_tracked bn + 1\<rparr>) y)"
proof -
  from stage3_ok[OF wf x] obtain xp where
    xp: "fst (stage2 m x) = Inr xp" "shape xp = [N, 128, 64, 64]"
        "layer3 (snd (stage3 m x)) = snd (run_block (layer3 m) xp)"
    by blast
  from wf have c: "wf_Conv2d (conv (layer3 m)) 128 256 4 2 1"
    and w: "wf_BatchNorm2d (norm (layer3 m)) 256"
    by (simp_all add: wf_Discriminator_def)
  from w bn(1) have nf: "num_features bn = 256" by (simp add: wf_BatchNorm2d_def)
  have "\<exists>y. conv2d (conv (layer3 m)) xp = Inr y \<and>
           norm (snd (run_block (layer3 m) xp)) =
             Some (update_stats (bn\<lparr>num_batches_tracked := num_batches_tracked bn + 1\<rparr>) y)"
    using n by (intro run_block_trained[OF c bn(1) nf bn(2) xp(2)]) (simp_all add: conv_out_def)
  then obtain y where
    y: "conv2d (conv (layer3 m)) xp = Inr y"
       "norm (snd (run_block (layer3 m) xp)) =
          Some (update_stats (bn\<lparr>num_batches_tracked := num_batches_tracked bn + 1\<rparr>) y)"
    by blast
  have "layer3 (snd (forward m x)) = snd (run_block (layer3 m) xp)"
    using xp(3) by (simp add: forward_snd stage5_keeps3)
  with xp(1) y show ?thesis by auto
qed

lemma stage4_trained:
  assumes wf: "wf_Discriminator m" and x: "shape x = [N, 3, 256, 256]" and n: "1 \<le> N"
    and bn: "norm (layer4 m) = Some bn" "bn_training bn"
  shows "\<exists>xp y. fst (stage3 m x) = Inr xp \<and> conv2d (conv (layer4 m)) xp = Inr y \<and>
           norm (layer4 (snd (forward m x))) =
             Some (update_stats (bn\<lparr>num_batches_tracked := num_batches_tracked bn + 1\<rparr>) y)"
proof -
  from stage4_ok[OF wf x] obtain xp where
    xp: "fst (stage3 m x) = Inr xp" "shape xp = [N, 256, 32, 32]"
        "layer4 (snd (stage4 m x)) = snd (run_block (layer4 m) xp)"
    by blast
  from wf have c: "wf_Conv2d (conv (layer4 m)) 256 512 4 2 1"
    and w: "wf_BatchNorm2d (norm (layer4 m)) 512"
    by (simp_all add: wf_Discriminator_def)
  from w bn(1) have nf: "num_features bn = 512" by (simp add: wf_BatchNorm2d_def)
  have "\<exists>y. conv2d (conv (layer4 m)) xp = Inr y \<and>
           norm (snd (run_block (layer4 m) xp)) =
             Some (update_stats (bn\<lparr>num_batches_tracked := num_batches_tracked bn + 1\<rparr>) y)"
    using n by (intro run_block_trained[OF c bn(1) nf bn(2) xp(2)]) (simp_all add: conv_out_def)
  then obtain y where
    y: "conv2d (conv (layer4 m)) xp = Inr y"
       "norm (snd (run_block (layer4 m) xp)) =
          Some (update_stats (bn\<lparr>num_batches_tracked := num_batches_tracked bn + 1\<rparr>) y)"
    by blast
  have "layer4 (snd (forward m x)) = snd (run_block (layer4 m) xp)"
    using xp(3) by (simp add: forward_snd stage5_keeps4)
  with xp(1) y show ?thesis by auto
qed

lemma stage5_trained:
  assumes wf: "wf_Discriminator m" and x: "shape x = [N, 3, 256, 256]" and n: "1 \<le> N"
    and bn: "norm (layer5 m) = Some bn" "bn_training bn"
  shows "\<exists>xp y. fst (stage4 m x) = Inr xp \<and> conv2d (conv (layer5 m)) xp = Inr y \<and>
           norm (layer5 (snd (forward m x))) =
             Some (update_stats (bn\<lparr>num_batches_tracked := num_batches_tracked bn + 1\<rparr>) y)"
proof -
  from stage5_ok[OF wf x] obtain xp where
    xp: "fst (stage4 m x) = Inr xp" "shape xp = [N, 512, 16, 16]"
        "layer5 (snd (stage5 m x)) = snd (run_block (layer5 m) xp)"
    by blast
  from wf have c: "wf_Conv2d (conv (layer5 m)) 512 512 3 1 1"
    and w: "wf_BatchNorm2d (norm (layer5 m)) 512"
    by (simp_all add: wf_Discriminator_def)
  from w bn(1) have nf: "num_features bn = 512" by (simp add: wf_BatchNorm2d_def)
  have "\<exists>y. conv2d (conv (layer5 m)) xp = Inr y \<and>
           norm (snd (run_block (layer5 m) xp)) =
             Some (update_stats (bn\<lparr>num_batches_tracked := num_batches_tracked bn + 1\<rparr>) y)"
    using n by (intro run_block_trained[OF c bn(1) nf bn(2) xp(2)]) (simp_all add: conv_out_def)
  then obtain y where
    y: "conv2d (conv (layer5 m)) xp = Inr y"
       "norm (snd (run_block (layer5 m) xp)) =
          Some (update_stats (bn\<lparr>num_batches_tracked := num_batches_tracked bn + 1\<rparr>) y)"
    by blast
  have "layer5 (snd (forward m x)) = snd (run_block (layer5 m) xp)"
    using xp(3) by (simp add: forward_snd)
  with xp(1) y show ?thesis by auto
qed

lemma stage1_eval: "eval_mode m \<Longrightarrow> snd (stage1 m x) = m"
  by (simp add: stage1_snd eval_mode_def run_block_eval)

lemma stage2_eval: "eval_mode m \<Longrightarrow> snd (stage2 m x) = m"
  by (simp add: stage2_snd stage1_eval eval_mode_def run_block_eval split: sum.splits)

lemma stage3_eval: "eval_mode m \<Longrightarrow> snd (stage3 m x) = m"
  by (simp add: stage3_snd stage2_eval eval_mode_def run_block_eval split: sum.splits)

lemma stage4_eval: "eval_mode m \<Longrightarrow> snd (stage4 m x) = m"
  by (simp add: stage4_snd stage3_eval eval_mode_def run_block_eval split: sum.splits)

lemma stage5_eval: "eval_mode m \<Longrightarrow> snd (stage5 m x) = m"
  by (simp add: stage5_snd stage4_eval eval_mode_def run_block_eval split: sum.splits)

lemma forward_eval: "eval_mode m \<Longrightarrow> snd (forward m x) = m"
  by (simp add: forward_snd stage5_eval)

lemma example_model_layer2:
  "norm (layer2 example_model) = Some (new_BatchNorm2d ''layer2.1'' 128)"
  by (simp add: example_model_def Discriminator_init_def new_Linear_def Let_def)

lemma new_BatchNorm2d_fresh:
  "bn_training (new_BatchNorm2d name n)" "num_batches_tracked (new_BatchNorm2d name n) = 0"
  by (simp_all add: new_BatchNorm2d_def)

subsection \<open>Printing gradients and the backward pass\<close>

lemma missing_GradLine: "missing (GradLine i j g) \<longleftrightarrow> g = None"
  by (cases g) simp_all

lemma until_missing_append:
  "until_missing (a @ b) = (if list_ex missing a then until_missing a else a @ until_missing b)"
  by (induction a) simp_all

lemma until_missing_all: "\<not> list_ex missing a \<Longrightarrow> until_missing a = a"
  by (induction a) simp_all

lemma list_ex_missing_lines:
  "list_ex missing (map (\<lambda>(j, p). GradLine i j (grad p)) (enumerate j ps)) \<longleftrightarrow>
     \<not> list_all has_grad ps"
  by (induction ps arbitrary: j) (simp_all add: missing_GradLine has_grad_def)

lemma display_parameters_spec:
  "display_parameters i j ps out =
     (if list_all has_grad ps then Inr () else Inl (AssertionError GradNotNone []),
      out @ until_missing (map (\<lambda>(j, p). GradLine i j (grad p)) (enumerate j ps)))"
  by (induction ps arbitrary: j out) (simp_all add: missing_GradLine has_grad_def)

lemma display_layers_spec:
  "display_layers i ls out =
     (if list_all (list_all has_grad) ls then Inr ()
      else Inl (AssertionError GradNotNone []),
      out @ until_missing
              (concat (map (\<lambda>(i, l). map (\<lambda>(j, p). GradLine i j (grad p)) (enumerate 0 l))
                         (enumerate i ls))))"
proof (induction ls arbitrary: i out)
  case Nil
  show ?case by simp
next
  case (Cons l ls)
  show ?case
    by (simp add: display_parameters_spec Cons.IH until_missing_append list_ex_missing_lines
          until_missing_all)
qed

lemma list_all_concat: "list_all P (concat xss) \<longleftrightarrow> list_all (list_all P) xss"
  by (induction xss) simp_all

lemma display_gradients_spec:
  "display_gradients m out =
     (if all_grads m then Inr () else Inl (AssertionError GradNotNone []),
      out @ Banner # until_missing (grad_lines m), m)"
  by (simp add: display_gradients_def display_layers_spec all_grads_def grad_lines_def
        list_all_concat)

lemma grad_lines_complete: "all_grads m \<Longrightarrow> until_missing (grad_lines m) = grad_lines m"
proof -
  assume a: "all_grads m"
  have "list_ex missing
          (concat (map (\<lambda>(i, l). map (\<lambda>(j, p). GradLine i j (grad p)) (enumerate 0 l))
                     (enumerate i ls))) \<longleftrightarrow>
        \<not> list_all (list_all has_grad) ls" for i ls
    by (induction ls arbitrary: i) (simp_all add: list_ex_missing_lines)
  with a have "\<not> list_ex missing (grad_lines m)"
    by (simp add: grad_lines_def all_grads_def list_all_concat)
  then show ?thesis by (rule until_missing_all)
qed

lemma backward_parameter_grad:
  "leaves (pdata p) \<noteq> {} \<Longrightarrow> leaves (pdata p) \<subseteq> leaves loss \<Longrightarrow>
     has_grad (backward_parameter g loss p)"
  by (simp add: backward_parameter_def has_grad_def)

lemma layer_list_backward:
  "layer_list (backward g loss m) = map (map (backward_parameter g loss)) (layer_list m)"
  by (simp add: layer_list_def backward_def backward_block_def backward_head_def
        block_parameters_def head_parameters_def split: option.splits)

lemma wf_parameter_leaves: "wf_parameter p shp \<Longrightarrow> leaves (pdata p) \<noteq> {}"
  by (simp add: wf_parameter_def)

lemma wf_block_leaves:
  assumes "wf_Conv2d (conv b) cin cout k s p" and "norm b = None \<or> wf_BatchNorm2d (norm b) n"
  shows "list_all (\<lambda>q. leaves (pdata q) \<noteq> {}) (block_parameters b)"
  using assms
  by (auto simp add: block_parameters_def wf_Conv2d_def wf_BatchNorm2d_def
        dest: wf_parameter_leaves split: option.splits)

lemma wf_head_leaves:
  "wf_Head h i out a \<Longrightarrow> list_all (\<lambda>q. leaves (pdata q) \<noteq> {}) (head_parameters h)"
  by (auto simp add: head_parameters_def wf_Head_def dest: wf_parameter_leaves)

lemma wf_layer_list_leaves:
  assumes "wf_Discriminator m"
  shows "list_all (list_all (\<lambda>q. leaves (pdata q) \<noteq> {})) (layer_list m)"
proof -
  from assms have
    "list_all (\<lambda>q. leaves (pdata q) \<noteq> {}) (block_parameters (layer1 m))"
    "list_all (\<lambda>q. leaves (pdata q) \<noteq> {}) (block_parameters (layer2 m))"
    "list_all (\<lambda>q. leaves (pdata q) \<noteq> {}) (block_parameters (layer3 m))"
    "list_all (\<lambda>q. leaves (pdata q) \<noteq> {}) (block_parameters (layer4 m))"
    "list_all (\<lambda>q. leaves (pdata q) \<noteq> {}) (block_parameters (layer5 m))"
    "list_all (\<lambda>q. leaves (pdata q) \<noteq> {}) (head_parameters (probabilities m))"
    "list_all (\<lambda>q. leaves (pdata q) \<noteq> {}) (head_parameters (styles m))"
    unfolding wf_Discriminator_def
    by (blast intro: wf_block_leaves wf_head_leaves)+
  then show ?thesis by (simp add: layer_list_def)
qed

lemma param_leaves_covers:
  "param_leaves ps \<subseteq> L \<Longrightarrow> list_all (\<lambda>q. leaves (pdata q) \<subseteq> L) ps"
  by (auto simp add: param_leaves_def list_all_iff)

lemma forward_leaves:
  assumes wf: "wf_Discriminator m" and x: "shape x = [N, 3, 256, 256]"
  shows "\<exists>ps st. fst (forward m x) = Inr (ps, st) \<and>
           leaves ps = leaves x \<union> param_leaves (block_parameters (layer1 m))
                         \<union> param_leaves (block_parameters (layer2 m))
                         \<union> param_leaves (block_parameters (layer3 m))
                         \<union> param_leaves (block_parameters (layer4 m))
                         \<union> param_leaves (block_parameters (layer5 m))
                         \<union> param_leaves (head_parameters (probabilities m)) \<and>
           leaves st = leaves x \<union> param_leaves (block_parameters (layer1 m))
                         \<union> param_leaves (block_parameters (layer2 m))
                         \<union> param_leaves (block_parameters (layer3 m))
                         \<union> param_leaves (block_parameters (layer4 m))
                         \<union> param_leaves (block_parameters (layer5 m))
                         \<union> param_leaves (head_parameters (styles m))"
proof -
  from stage5_ok[OF wf x] obtain x5 where
    x5: "fst (stage5 m x) = Inr x5"
        "leaves x5 = leaves x \<union> param_leaves (block_parameters (layer1 m))
                         \<union> param_leaves (block_parameters (layer2 m))
                         \<union> param_leaves (block_parameters (layer3 m))
                         \<union> param_leaves (block_parameters (layer4 m))
                         \<union> param_leaves (block_parameters (layer5 m))"
    by blast
  from pooled_ok[OF wf x] x5(1) obtain fl where
    fl: "fst (pooled m x) = Inr fl" "leaves fl = leaves x5"
    by auto
  from forward_ok[OF wf x] fl(1) obtain lp ls st where
    h: "shape ls = [N, nat (style_classes m)]" "wf_tensor ls" "softmax 0 ls = Inr st"
       "leaves lp = leaves fl \<union> param_leaves (head_parameters (probabilities m))"
       "leaves ls = leaves fl \<union> param_leaves (head_parameters (styles m))"
       "fst (forward m x) = Inr (sigmoid lp, st)"
    by auto
  from softmax0_2d[OF h(1,2)] h(3) have "leaves st = leaves ls" by auto
  with h(4,5,6) fl(2) x5(2) show ?thesis by (simp add: sigmoid_simps)
qed

lemma backward_reaches_all:
  assumes wf: "wf_Discriminator m" and x: "shape x = [N, 3, 256, 256]"
    and f: "fst (forward m x) = Inr (ps, st)"
  shows "all_grads (backward g (sum_loss ps st) (snd (forward m x)))"
proof -
  let ?L = "leaves (sum_loss ps st)"
  from forward_leaves[OF wf x] f have
    l: "?L = leaves x \<union> param_leaves (block_parameters (layer1 m))
                         \<union> param_leaves (block_parameters (layer2 m))
                         \<union> param_leaves (block_parameters (layer3 m))
                         \<union> param_leaves (block_parameters (layer4 m))
                         \<union> param_leaves (block_parameters (layer5 m))
                         \<union> param_leaves (head_parameters (probabilities m))
                         \<union> param_leaves (head_parameters (styles m))"
    by (auto simp add: sum_loss_def)
  have c: "list_all (list_all (\<lambda>q. leaves (pdata q) \<subseteq> ?L)) (layer_list m)"
    unfolding layer_list_def l by (simp add: param_leaves_covers le_supI1 le_supI2 del: Un_subset_iff)
  from wf_layer_list_leaves[OF wf]
  have n: "list_all (list_all (\<lambda>q. leaves (pdata q) \<noteq> {})) (layer_list m)" .
  have "list_all (list_all (\<lambda>q. has_grad (backward_parameter g (sum_loss ps st) q))) (layer_list m)"
    using c n unfolding list_all_iff by (blast intro: backward_parameter_grad)
  moreover have "layer_list (snd (forward m x)) = layer_list m"
    using forward_equiv[of m x] by (simp add: model_equiv_layer_list)
  ultimately show ?thesis
    by (simp add: all_grads_def list_all_concat layer_list_backward list_all_iff)
qed

lemma example_model_layer3:
  "norm (layer3 example_model) = Some (new_BatchNorm2d ''layer3.1'' 256)"
  by (simp add: example_model_def Discriminator_init_def new_Linear_def Let_def)

lemma example_model_layer4:
  "norm (layer4 example_model) = Some (new_BatchNorm2d ''layer4.1'' 512)"
  by (simp add: example_model_def Discriminator_init_def new_Linear_def Let_def)

lemma example_model_layer5:
  "norm (layer5 example_model) = Some (new_BatchNorm2d ''layer5.1'' 512)"
  by (simp add: example_model_def Discriminator_init_def new_Linear_def Let_def)

lemma eval_mode_set_eval: "eval_mode (set_eval m)"
  by (simp add: eval_mode_def set_eval_def eval_block_def eval_block_of_def split: option.splits)

lemma layer_list_lengths:
  "wf_Discriminator m \<Longrightarrow> map length (layer_list m) = [2, 4, 4, 4, 4, 2, 2]"
  by (auto simp add: wf_Discriminator_def wf_BatchNorm2d_def layer_list_def block_parameters_def
        head_parameters_def split: option.splits)

lemma grad_lines_first:
  "grad_lines m = GradLine 0 0 (grad (conv_weight (conv (layer1 m)))) # tl (grad_lines m)"
  by (simp add: grad_lines_def layer_list_def block_parameters_def)

lemma all_grads_first: "all_grads m \<Longrightarrow> has_grad (conv_weight (conv (layer1 m)))"
  by (simp add: all_grads_def layer_list_def block_parameters_def)

lemma example_model_no_grad: "grad (conv_weight (conv (layer1 example_model))) = None"
  by (simp add: example_model_def Discriminator_init_def new_Linear_def Let_def new_Conv2d_def
        new_parameter_def)

subsection \<open>A convolution with zero weights\<close>

lemma index4_less:
  assumes "n < N" and "c < C" and "h < H" and "w < (W::nat)"
  shows "((n * C + c) * H + h) * W + w < N * C * H * W"
proof -
  have "n * C + c < N * C" using assms(1,2) by (rule flat_index_less)
  then have "(n * C + c) * H + h < N * C * H" using assms(3) by (rule flat_index_less)
  then show ?thesis using assms(4) by (rule flat_index_less)
qed

lemma sum_list_zero: "(\<And>x. x \<in> set xs \<Longrightarrow> f x = (0::real)) \<Longrightarrow> sum_list (map f xs) = 0"
  by (induction xs) simp_all

lemma unravel4_less:
  assumes "idx < N * C * H * (W::nat)"
  shows "(idx div (H * W)) mod C < C"
proof -
  from assms have "0 < C" by (cases C) simp_all
  then show ?thesis by simp
qed

lemma conv2d_zero:
  assumes wf: "wf_Conv2d cv cin cout k s p"
    and w0: "\<forall>v\<in>set (storage (pdata (conv_weight cv))). v = 0"
    and b0: "\<forall>v\<in>set (storage (pdata (conv_bias cv))). v = 0"
    and y: "conv2d cv x = Inr y"
  shows "\<forall>v\<in>set (storage y). v = 0"
proof -
  from wf have sw: "shape (pdata (conv_weight cv)) = [cout, cin, k, k]"
    and lw: "length (storage (pdata (conv_weight cv))) = cout * cin * k * k"
    and lb: "length (storage (pdata (conv_bias cv))) = cout"
    and st: "conv_stride cv = (s, s)" and pd: "conv_padding cv = (p, p)"
    by (simp_all add: wf_Conv2d_def wf_parameter_def)
  have wz: "at4 (pdata (conv_weight cv)) co ci a b = 0"
    if "co < cout" "ci < cin" "a < k" "b < k" for co ci a b
  proof -
    have "((co * cin + ci) * k + a) * k + b < cout * cin * k * k"
      using that by (rule index4_less)
    then have "storage (pdata (conv_weight cv)) ! (((co * cin + ci) * k + a) * k + b)
                 \<in> set (storage (pdata (conv_weight cv)))"
      using lw by simp
    with w0 show ?thesis by (simp add: at4_simp[OF sw])
  qed
  have bz: "storage (pdata (conv_bias cv)) ! co = 0" if "co < cout" for co
    using that lb b0 by simp
  from y obtain N C H W where x: "shape x = [N, C, H, W]"
    by (auto simp add: conv2d_def list_case4 dest: shape_4d split: if_splits)
  let ?Ho = "conv_out H k s p" and ?Wo = "conv_out W k s p"
  from y x sw st pd have
    sy: "storage y =
           map (\<lambda>idx. case unravel4 cout ?Ho ?Wo idx of (n, co, i, j) \<Rightarrow>
                  storage (pdata (conv_bias cv)) ! co +
                  (\<Sum>ci\<leftarrow>[0..<cin]. \<Sum>a\<leftarrow>[0..<k]. \<Sum>b\<leftarrow>[0..<k].
                     at4 (pdata (conv_weight cv)) co ci a b *
                     padded x p p n ci (i * s + a) (j * s + b)))
             [0..<N * cout * ?Ho * ?Wo]"
    by (auto simp add: conv2d_def Let_def split: if_splits)
  have "(case unravel4 cout ?Ho ?Wo idx of (n, co, i, j) \<Rightarrow>
                  storage (pdata (conv_bias cv)) ! co +
                  (\<Sum>ci\<leftarrow>[0..<cin]. \<Sum>a\<leftarrow>[0..<k]. \<Sum>b\<leftarrow>[0..<k].
                     at4 (pdata (conv_weight cv)) co ci a b *
                     padded x p p n ci (i * s + a) (j * s + b))) = 0"
    if idx: "idx < N * cout * ?Ho * ?Wo" for idx
  proof -
    let ?co = "(idx div (?Ho * ?Wo)) mod cout"
    have co: "?co < cout" using idx by (rule unravel4_less)
    have "(\<Sum>ci\<leftarrow>[0..<cin]. \<Sum>a\<leftarrow>[0..<k]. \<Sum>b\<leftarrow>[0..<k].
             at4 (pdata (conv_weight cv)) ?co ci a b * padded x p p n ci (i * s + a) (j * s + b)) = 0"
      for n i j
      by (intro sum_list_zero) (simp add: wz[OF co])
    with bz[OF co] show ?thesis by (simp add: unravel4_def)
  qed
  then show ?thesis by (auto simp add: sy)
qed

lemma channel_entries_zero:
  assumes s: "shape y = [N, C, H, W]" and wf: "wf_tensor y"
    and z: "\<forall>v\<in>set (storage y). v = 0" and c: "c < C"
  shows "\<forall>v\<in>set (channel_entries y c). v = 0"
proof -
  have "at4 y n c h w = 0" if "n < N" "h < H" "w < W" for n h w
  proof -
    have "((n * C + c) * H + h) * W + w < N * C * H * W"
      using that(1) c that(2,3) by (rule index4_less)
    then have "storage y ! (((n * C + c) * H + h) * W + w) \<in> set (storage y)"
      using wf s by (simp add: wf_tensor_def)
    with z show ?thesis by (simp add: at4_simp[OF s])
  qed
  then show ?thesis using s by (auto simp add: channel_entries_def)
qed

lemma batch_var_unbiased_zero:
  assumes "\<forall>v\<in>set (channel_entries y c). v = 0"
  shows "batch_var_unbiased y c = 0"
proof -
  have m: "batch_mean y c = 0"
    using assms by (simp add: batch_mean_def sum_list_zero[of _ "\<lambda>v. v", simplified])
  have "(\<Sum>v\<leftarrow>channel_entries y c. (v - batch_mean y c)\<^sup>2) = 0"
    using assms by (intro sum_list_zero) (simp add: m)
  then show ?thesis by (simp add: batch_var_unbiased_def)
qed

lemma example_model_layer2_conv:
  "conv (layer2 example_model) = new_Conv2d ''layer2.0'' 64 128 (4, 4) (2, 2) (1, 1) zeros_rng"
  by (simp add: example_model_def Discriminator_init_def new_Linear_def Let_def)

lemma new_Conv2d_zeros:
  "\<forall>v\<in>set (storage (pdata (conv_weight (new_Conv2d name i out ks st pd zeros_rng)))). v = 0"
  "\<forall>v\<in>set (storage (pdata (conv_bias (new_Conv2d name i out ks st pd zeros_rng)))). v = 0"
  by (auto simp add: new_Conv2d_def new_parameter_def zeros_rng_def)

lemma example_variance_after:
  "variances (layer2 (snd (forward example_model (example_batch 1)))) ! 0 = 9 / 10"
proof -
  let ?bn = "new_BatchNorm2d ''layer2.1'' 128"
  from stage2_trained[OF example_model_wf example_batch_shape _ example_model_layer2
      new_BatchNorm2d_fresh(1), of 1]
  obtain xp y where
    y: "conv2d (conv (layer2 example_model)) xp = Inr y" and
    n: "norm (layer2 (snd (forward example_model (example_batch 1)))) =
          Some (update_stats (?bn\<lparr>num_batches_tracked := num_batches_tracked ?bn + 1\<rparr>) y)" and
    xp: "fst (stage1 example_model (example_batch 1)) = Inr xp"
    by auto
  from stage1_ok[OF example_model_wf example_batch_shape, of 1] xp
  have sxp: "shape xp = [1, 64, 128, 128]" by auto
  have wfc: "wf_Conv2d (conv (layer2 example_model)) 64 128 4 2 1"
    using example_model_wf by (simp add: wf_Discriminator_def)
  from conv2d_ok[OF wfc sxp] y have sy: "shape y = [1, 128, 64, 64]" "wf_tensor y"
    by (auto simp add: conv_out_def)
  have "\<forall>v\<in>set (storage y). v = 0"
    using wfc _ _ y by (rule conv2d_zero) (simp_all add: example_model_layer2_conv new_Conv2d_zeros)
  then have "\<forall>v\<in>set (channel_entries y 0). v = 0"
    using sy by (intro channel_entries_zero[OF sy(1) sy(2)]) simp_all
  then have "batch_var_unbiased y 0 = 0" by (rule batch_var_unbiased_zero)
  moreover have "variances (layer2 (snd (forward example_model (example_batch 1)))) =
      running_var (update_stats (?bn\<lparr>num_batches_tracked := num_batches_tracked ?bn + 1\<rparr>) y)"
    by (simp only: variances_def n option.case)
  ultimately show ?thesis
    by (simp add: update_stats_def new_BatchNorm2d_def)
qed

lemma example_variance_before: "variances (layer2 example_model) ! 0 = 1"
  by (simp add: variances_def example_model_layer2 new_BatchNorm2d_def)

section \<open>The claims\<close>





text \<open>
  Claim C3. An input whose shape without the batch axis is not \<open>(3, 256, 256)\<close> fails the
  first assert statement of the forward pass: the exception is the one of the assert on
  the input, it is raised before \<^verbatim>\<open>layer1\<close> runs (the first prefix of the forward pass
  already ends in it), and the model is left as it was.
\<close>

theorem forward_rejects_other_shapes:
  assumes "tl (shape x) \<noteq> [3, 256, 256]"
  shows "forward m x = (Inl (AssertionError InputShape []), m) \<and>
         stage1 m x = (Inl (AssertionError InputShape []), m)"
  using assms
  by (simp add: forward_def pooled_def stage5_def stage4_def stage3_def stage2_def stage1_def)

text \<open>Claim C3 on a batch with four channels and on a batch of 128 by 128 images.\<close>

theorem forward_rejects_other_shapes_witness:
  "tl (shape wrong_channels) \<noteq> [3, 256, 256] \<and>
   forward example_model wrong_channels = (Inl (AssertionError InputShape []), example_model) \<and>
   stage1 example_model wrong_channels = (Inl (AssertionError InputShape []), example_model) \<and>
   tl (shape wrong_extent) \<noteq> [3, 256, 256] \<and>
   forward example_model wrong_extent = (Inl (AssertionError InputShape []), example_model) \<and>
   stage1 example_model wrong_extent = (Inl (AssertionError InputShape []), example_model)"
  using forward_rejects_other_shapes[of wrong_channels example_model]
    forward_rejects_other_shapes[of wrong_extent example_model]
  by (simp add: wrong_channels_def wrong_extent_def)

text \<open>
  Claim C4. For an input of shape \<open>(N, 3, 256, 256)\<close> the five stages produce feature maps
  of shapes \<open>(N, 64, 128, 128)\<close>, \<open>(N, 128, 64, 64)\<close>, \<open>(N, 256, 32, 32)\<close>,
  \<open>(N, 512, 16, 16)\<close> and \<open>(N, 512, 16, 16)\<close>, for every model with the shapes the
  constructor fixes, whatever the entries of its weights. The constructor gives stage 5
  a 3 by 3 kernel with stride 1 and padding 1, which keeps an extent of 16; a 4 by 4
  kernel with stride 2 would halve it.
\<close>

theorem stage_shapes:
  assumes "wf_Discriminator m" and "shape x = [N, 3, 256, 256]"
  shows "(\<exists>x1 x2 x3 x4 x5.
            fst (stage1 m x) = Inr x1 \<and> shape x1 = [N, 64, 128, 128] \<and>
            fst (stage2 m x) = Inr x2 \<and> shape x2 = [N, 128, 64, 64] \<and>
            fst (stage3 m x) = Inr x3 \<and> shape x3 = [N, 256, 32, 32] \<and>
            fst (stage4 m x) = Inr x4 \<and> shape x4 = [N, 512, 16, 16] \<and>
            fst (stage5 m x) = Inr x5 \<and> shape x5 = [N, 512, 16, 16]) \<and>
         (\<forall>s k rng m0. Discriminator_init s k rng = Inr m0 \<longrightarrow>
            wf_Discriminator m0 \<and>
            conv (layer5 m0) = new_Conv2d ''layer5.0'' 512 512 (3, 3) (1, 1) (1, 1) rng) \<and>
         conv_out 16 3 1 1 = 16 \<and> conv_out 16 4 2 1 = 8"
proof -
  have "conv_out 16 3 1 1 = 16" "conv_out 16 4 2 1 = 8" by (simp_all add: conv_out_def)
  with five_stage_shapes[OF assms] init_wf init_layer5 show ?thesis by blast
qed

text \<open>Claim C4 on a batch of two images and the example model.\<close>

theorem stage_shapes_witness:
  "wf_Discriminator example_model \<and> shape (example_batch 2) = [2, 3, 256, 256] \<and>
   Discriminator_init (1 / 5) 3 zeros_rng = Inr example_model \<and>
   conv (layer5 example_model) = new_Conv2d ''layer5.0'' 512 512 (3, 3) (1, 1) (1, 1) zeros_rng \<and>
   (\<exists>x1 x2 x3 x4 x5.
      fst (stage1 example_model (example_batch 2)) = Inr x1 \<and> shape x1 = [2, 64, 128, 128] \<and>
      fst (stage2 example_model (example_batch 2)) = Inr x2 \<and> shape x2 = [2, 128, 64, 64] \<and>
      fst (stage3 example_model (example_batch 2)) = Inr x3 \<and> shape x3 = [2, 256, 32, 32] \<and>
      fst (stage4 example_model (example_batch 2)) = Inr x4 \<and> shape x4 = [2, 512, 16, 16] \<and>
      fst (stage5 example_model (example_batch 2)) = Inr x5 \<and> shape x5 = [2, 512, 16, 16])"
proof -
  note t = stage_shapes[OF example_model_wf example_batch_shape, of 2]
  from t have "\<exists>x1 x2 x3 x4 x5.
      fst (stage1 example_model (example_batch 2)) = Inr x1 \<and> shape x1 = [2, 64, 128, 128] \<and>
      fst (stage2 example_model (example_batch 2)) = Inr x2 \<and> shape x2 = [2, 128, 64, 64] \<and>
      fst (stage3 example_model (example_batch 2)) = Inr x3 \<and> shape x3 = [2, 256, 32, 32] \<and>
      fst (stage4 example_model (example_batch 2)) = Inr x4 \<and> shape x4 = [2, 512, 16, 16] \<and>
      fst (stage5 example_model (example_batch 2)) = Inr x5 \<and> shape x5 = [2, 512, 16, 16]"
    by blast
  moreover from t example_model_init
  have "conv (layer5 example_model) =
          new_Conv2d ''layer5.0'' 512 512 (3, 3) (1, 1) (1, 1) zeros_rng"
    by blast
  ultimately show ?thesis
    by (simp add: example_model_wf example_batch_shape example_model_init)
qed




text \<open>
  Claim C6 as stated fails on the code: a module is constructed in training mode, and in
  training mode a forward pass changes the buffers of the batch normalisations. After one
  forward pass of the example model over one image, the batch normalisation of stage 2
  has counted one batch and its running variance of channel 0 has moved from 1 to 0.9,
  so the pass has not left the model as it was.
\<close>

theorem forward_changes_buffers:
  "batches (layer2 example_model) = 0 \<and>
   batches (layer2 (snd (forward example_model (example_batch 1)))) = 1 \<and>
   variances (layer2 example_model) ! 0 = 1 \<and>
   variances (layer2 (snd (forward example_model (example_batch 1)))) ! 0 = 9 / 10 \<and>
   snd (forward example_model (example_batch 1)) \<noteq> example_model"
proof -
  have a: "batches (layer2 example_model) = 0"
    by (simp add: batches_def example_model_layer2 new_BatchNorm2d_fresh)
  from stage2_trained[OF example_model_wf example_batch_shape _ example_model_layer2
      new_BatchNorm2d_fresh(1), of 1]
  have b: "batches (layer2 (snd (forward example_model (example_batch 1)))) = 1"
    by (auto simp add: batches_def update_stats_def new_BatchNorm2d_fresh)
  from a b have "snd (forward example_model (example_batch 1)) \<noteq> example_model"
    by auto
  with a b example_variance_before example_variance_after show ?thesis by simp
qed

text \<open>
  Claim C6, amended. A forward pass changes nothing but buffers of batch normalisations
  that are in training mode: parameters, gradients, settings, training flags and the
  buffers of batch normalisations in evaluation mode stay as they are, on every input.
  A second forward pass over the same input returns what the first returned. With every
  batch normalisation in evaluation mode the model is left exactly as it was. On a batch
  of shape \<open>(N, 3, 256, 256)\<close>, \<open>N \<ge> 1\<close>, a batch normalisation of stages 2 to 5 that is
  in training mode (as the constructor leaves it) counts the batch and moves its running
  statistics towards the statistics of the convolution output it normalised.
\<close>

theorem forward_effects:
  "model_equiv m (snd (forward m x)) \<and>
   fst (forward (snd (forward m x)) x) = fst (forward m x) \<and>
   (eval_mode m \<longrightarrow> snd (forward m x) = m) \<and>
   (wf_Discriminator m \<and> shape x = [N, 3, 256, 256] \<and> 1 \<le> N \<longrightarrow>
      (\<forall>bn. norm (layer2 m) = Some bn \<and> bn_training bn \<longrightarrow>
         (\<exists>xp y. fst (stage1 m x) = Inr xp \<and> conv2d (conv (layer2 m)) xp = Inr y \<and>
            norm (layer2 (snd (forward m x))) =
              Some (update_stats (bn\<lparr>num_batches_tracked := num_batches_tracked bn + 1\<rparr>) y))) \<and>
      (\<forall>bn. norm (layer3 m) = Some bn \<and> bn_training bn \<longrightarrow>
         (\<exists>xp y. fst (stage2 m x) = Inr xp \<and> conv2d (conv (layer3 m)) xp = Inr y \<and>
            norm (layer3 (snd (forward m x))) =
              Some (update_stats (bn\<lparr>num_batches_tracked := num_batches_tracked bn + 1\<rparr>) y))) \<and>
      (\<forall>bn. norm (layer4 m) = Some bn \<and> bn_training bn \<longrightarrow>
         (\<exists>xp y. fst (stage3 m x) = Inr xp \<and> conv2d (conv (layer4 m)) xp = Inr y \<and>
            norm (layer4 (snd (forward m x))) =
              Some (update_stats (bn\<lparr>num_batches_tracked := num_batches_tracked bn + 1\<rparr>) y))) \<and>
      (\<forall>bn. norm (layer5 m) = Some bn \<and> bn_training bn \<longrightarrow>
         (\<exists>xp y. fst (stage4 m x) = Inr xp \<and> conv2d (conv (layer5 m)) xp = Inr y \<and>
            norm (layer5 (snd (forward m x))) =
              Some (update_stats (bn\<lparr>num_batches_tracked := num_batches_tracked bn + 1\<rparr>) y))))"
proof (intro conjI impI allI)
  show "model_equiv m (snd (forward m x))" by (rule forward_equiv)
next
  have "model_equiv (snd (forward m x)) m"
    using forward_equiv by (rule model_equiv_sym)
  then show "fst (forward (snd (forward m x)) x) = fst (forward m x)" by (rule forward_cong)
next
  assume "eval_mode m"
  then show "snd (forward m x) = m" by (rule forward_eval)
next
  fix bn
  assume "wf_Discriminator m \<and> shape x = [N, 3, 256, 256] \<and> 1 \<le> N"
    and "norm (layer2 m) = Some bn \<and> bn_training bn"
  then show "\<exists>xp y. fst (stage1 m x) = Inr xp \<and> conv2d (conv (layer2 m)) xp = Inr y \<and>
            norm (layer2 (snd (forward m x))) =
              Some (update_stats (bn\<lparr>num_batches_tracked := num_batches_tracked bn + 1\<rparr>) y)"
    using stage2_trained by blast
next
  fix bn
  assume "wf_Discriminator m \<and> shape x = [N, 3, 256, 256] \<and> 1 \<le> N"
    and "norm (layer3 m) = Some bn \<and> bn_training bn"
  then show "\<exists>xp y. fst (stage2 m x) = Inr xp \<and> conv2d (conv (layer3 m)) xp = Inr y \<and>
            norm (layer3 (snd (forward m x))) =
              Some (update_stats (bn\<lparr>num_batches_tracked := num_batches_tracked bn + 1\<rparr>) y)"
    using stage3_trained by blast
next
  fix bn
  assume "wf_Discriminator m \<and> shape x = [N, 3, 256, 256] \<and> 1 \<le> N"
    and "norm (layer4 m) = Some bn \<and> bn_training bn"
  then show "\<exists>xp y. fst (stage3 m x) = Inr xp \<and> conv2d (conv (layer4 m)) xp = Inr y \<and>
            norm (layer4 (snd (forward m x))) =
              Some (update_stats (bn\<lparr>num_batches_tracked := num_batches_tracked bn + 1\<rparr>) y)"
    using stage4_trained by blast
next
  fix bn
  assume "wf_Discriminator m \<and> shape x = [N, 3, 256, 256] \<and> 1 \<le> N"
    and "norm (layer5 m) = Some bn \<and> bn_training bn"
  then show "\<exists>xp y. fst (stage4 m x) = Inr xp \<and> conv2d (conv (layer5 m)) xp = Inr y \<and>
            norm (layer5 (snd (forward m x))) =
              Some (update_stats (bn\<lparr>num_batches_tracked := num_batches_tracked bn + 1\<rparr>) y)"
    using stage5_trained by blast
qed

text \<open>
  Claim C6, amended, on the example model and one image: in training mode, as
  constructed, each batch normalisation of stages 2 to 5 counts the batch and updates
  its running statistics, and a second pass returns what the first returned; switched
  to evaluation mode, the model is left as it was.
\<close>

theorem forward_effects_witness:
  "model_equiv example_model (snd (forward example_model (example_batch 1))) \<and>
   fst (forward (snd (forward example_model (example_batch 1))) (example_batch 1)) =
     fst (forward example_model (example_batch 1)) \<and>
   eval_mode (set_eval example_model) \<and>
   snd (forward (set_eval example_model) (example_batch 1)) = set_eval example_model \<and>
   wf_Discriminator example_model \<and> shape (example_batch 1) = [1, 3, 256, 256] \<and> (1::nat) \<le> 1 \<and>
   norm (layer2 example_model) = Some (new_BatchNorm2d ''layer2.1'' 128) \<and>
   bn_training (new_BatchNorm2d ''layer2.1'' 128) \<and>
   (\<exists>xp y. fst (stage1 example_model (example_batch 1)) = Inr xp \<and>
      conv2d (conv (layer2 example_model)) xp = Inr y \<and>
      norm (layer2 (snd (forward example_model (example_batch 1)))) =
        Some (update_stats ((new_BatchNorm2d ''layer2.1'' 128)\<lparr>num_batches_tracked := 1\<rparr>) y)) \<and>
   norm (layer3 example_model) = Some (new_BatchNorm2d ''layer3.1'' 256) \<and>
   bn_training (new_BatchNorm2d ''layer3.1'' 256) \<and>
   (\<exists>xp y. fst (stage2 example_model (example_batch 1)) = Inr xp \<and>
      conv2d (conv (layer3 example_model)) xp = Inr y \<and>
      norm (layer3 (snd (forward example_model (example_batch 1)))) =
        Some (update_stats ((new_BatchNorm2d ''layer3.1'' 256)\<lparr>num_batches_tracked := 1\<rparr>) y)) \<and>
   norm (layer4 example_model) = Some (new_BatchNorm2d ''layer4.1'' 512) \<and>
   bn_training (new_BatchNorm2d ''layer4.1'' 512) \<and>
   (\<exists>xp y. fst (stage3 example_model (example_batch 1)) = Inr xp \<and>
      conv2d (conv (layer4 example_model)) xp = Inr y \<and>
      norm (layer4 (snd (forward example_model (example_batch 1)))) =
        Some (update_stats ((new_BatchNorm2d ''layer4.1'' 512)\<lparr>num_batches_tracked := 1\<rparr>) y)) \<and>
   norm (layer5 example_model) = Some (new_BatchNorm2d ''layer5.1'' 512) \<and>
   bn_training (new_BatchNorm2d ''layer5.1'' 512) \<and>
   (\<exists>xp y. fst (stage4 example_model (example_batch 1)) = Inr xp \<and>
      conv2d (conv (layer5 example_model)) xp = Inr y \<and>
      norm (layer5 (snd (forward example_model (example_batch 1)))) =
        Some (update_stats ((new_BatchNorm2d ''layer5.1'' 512)\<lparr>num_batches_tracked := 1\<rparr>) y))"
proof -
  note t = forward_effects[of example_model "example_batch 1" 1]
  note e = forward_effects[of "set_eval example_model" "example_batch 1" 1]
  from e have "snd (forward (set_eval example_model) (example_batch 1)) = set_eval example_model"
    by (simp add: eval_mode_set_eval)
  with t show ?thesis
    by (simp add: eval_mode_set_eval example_model_wf example_batch_shape example_model_layer2
        example_model_layer3 example_model_layer4 example_model_layer5 new_BatchNorm2d_fresh)
qed

text \<open>
  Claim C7. \<^verbatim>\<open>display_gradients\<close> prints the opening line and then goes through the
  parameters of \<^verbatim>\<open>layer1\<close>, ..., \<^verbatim>\<open>layer5\<close>, the probabilities head and the styles head,
  in this order (2, 4, 4, 4, 4, 2 and 2 parameters), printing the gradient of each. It
  raises the assertion error if and only if some parameter has no gradient, right after
  printing the line of the first such parameter; otherwise it prints every line and
  returns. It leaves the model as it was. After a forward pass over a batch of shape
  \<open>(N, 3, 256, 256)\<close> and a backward pass from a loss computed from both outputs, every
  parameter has a gradient, so it returns.
\<close>

theorem display_gradients_contract:
  "display_gradients m out =
     (if all_grads m then Inr () else Inl (AssertionError GradNotNone []),
      out @ Banner # until_missing (grad_lines m), m) \<and>
   (all_grads m \<longrightarrow> until_missing (grad_lines m) = grad_lines m) \<and>
   (wf_Discriminator m \<longrightarrow> map length (layer_list m) = [2, 4, 4, 4, 4, 2, 2]) \<and>
   (wf_Discriminator m \<and> shape x = [N, 3, 256, 256] \<and> fst (forward m x) = Inr (ps, st) \<longrightarrow>
      all_grads (backward g (sum_loss ps st) (snd (forward m x))) \<and>
      fst (display_gradients (backward g (sum_loss ps st) (snd (forward m x))) out) = Inr ())"
proof (intro conjI impI)
  show "display_gradients m out =
     (if all_grads m then Inr () else Inl (AssertionError GradNotNone []),
      out @ Banner # until_missing (grad_lines m), m)"
    by (rule display_gradients_spec)
next
  assume "all_grads m"
  then show "until_missing (grad_lines m) = grad_lines m" by (rule grad_lines_complete)
next
  assume "wf_Discriminator m"
  then show "map length (layer_list m) = [2, 4, 4, 4, 4, 2, 2]" by (rule layer_list_lengths)
next
  assume a: "wf_Discriminator m \<and> shape x = [N, 3, 256, 256] \<and> fst (forward m x) = Inr (ps, st)"
  then show b: "all_grads (backward g (sum_loss ps st) (snd (forward m x)))"
    using backward_reaches_all by blast
  then show "fst (display_gradients (backward g (sum_loss ps st) (snd (forward m x))) out) = Inr ()"
    by (simp add: display_gradients_spec)
qed

text \<open>
  Claim C7 on the example model: fresh from the constructor it has no gradients, and
  \<^verbatim>\<open>display_gradients\<close> raises after the line of the first parameter; after a forward pass
  over one image and a backward pass from the summed outputs it returns.
\<close>

theorem display_gradients_contract_witness:
  "wf_Discriminator example_model \<and> shape (example_batch 1) = [1, 3, 256, 256] \<and>
   (\<exists>ps st. fst (forward example_model (example_batch 1)) = Inr (ps, st) \<and>
      all_grads (backward zero_grads (sum_loss ps st)
                   (snd (forward example_model (example_batch 1)))) \<and>
      display_gradients
        (backward zero_grads (sum_loss ps st) (snd (forward example_model (example_batch 1)))) [] =
        (Inr (),
         Banner # grad_lines (backward zero_grads (sum_loss ps st)
                               (snd (forward example_model (example_batch 1)))),
         backward zero_grads (sum_loss ps st) (snd (forward example_model (example_batch 1))))) \<and>
   map length (layer_list example_model) = [2, 4, 4, 4, 4, 2, 2] \<and>
   \<not> all_grads example_model \<and>
   display_gradients example_model [] =
     (Inl (AssertionError GradNotNone []), [Banner, GradLine 0 0 None], example_model)"
proof -
  from forward_ok[OF example_model_wf example_batch_shape, of 1] obtain ps st where
    f: "fst (forward example_model (example_batch 1)) = Inr (ps, st)"
    by blast
  let ?m = "backward zero_grads (sum_loss ps st) (snd (forward example_model (example_batch 1)))"
  from display_gradients_contract[of example_model "[]" "example_batch 1" 1 ps st zero_grads] f
  have a: "all_grads ?m"
    and l: "map length (layer_list example_model) = [2, 4, 4, 4, 4, 2, 2]"
    by (simp_all add: example_model_wf example_batch_shape)
  from display_gradients_contract[of ?m "[]" "example_batch 1" 1 ps st zero_grads] a
  have b: "display_gradients ?m [] = (Inr (), Banner # grad_lines ?m, ?m)"
    by simp
  have n: "\<not> all_grads example_model"
    using all_grads_first[of example_model] by (auto simp add: has_grad_def example_model_no_grad)
  have u: "until_missing (grad_lines example_model) = [GradLine 0 0 None]"
    by (subst grad_lines_first) (simp add: example_model_no_grad)
  from display_gradients_contract[of example_model "[]" "example_batch 1" 1 ps st zero_grads] n u
  have d: "display_gradients example_model [] =
     (Inl (AssertionError GradNotNone []), [Banner, GradLine 0 0 None], example_model)"
    by simp
  from f a b have "\<exists>ps st. fst (forward example_model (example_batch 1)) = Inr (ps, st) \<and>
      all_grads (backward zero_grads (sum_loss ps st)
                   (snd (forward example_model (example_batch 1)))) \<and>
      display_gradients
        (backward zero_grads (sum_loss ps st) (snd (forward example_model (example_batch 1)))) [] =
        (Inr (),
         Banner # grad_lines (backward zero_grads (sum_loss ps st)
                               (snd (forward example_model (example_batch 1)))),
         backward zero_grads (sum_loss ps st) (snd (forward example_model (example_batch 1))))"
    by blast
  with l n d show ?thesis by (simp add: example_model_wf example_batch_shape)
qed

text \<open>
  Claim C8. For an input of shape \<open>(N, 3, 256, 256)\<close> the features both heads read are the
  feature map of stage 5, of shape \<open>(N, 512, 16, 16)\<close>, averaged over its 16 by 16 extent
  by a pooling with kernel size 16 and flattened: a tensor of shape \<open>(N, 512)\<close> whose entry
  \<open>(n, c)\<close> is the mean of the 256 entries of channel \<open>c\<close> of example \<open>n\<close>.
\<close>

theorem pooled_features:
  assumes "wf_Discriminator m" and "shape x = [N, 3, 256, 256]"
  shows "\<exists>x5 x6 fl ps st.
           fst (stage5 m x) = Inr x5 \<and> shape x5 = [N, 512, 16, 16] \<and>
           avg_pool2d 16 x5 = Inr x6 \<and> shape x6 = [N, 512, 1, 1] \<and> flatten x6 = Inr fl \<and>
           fst (pooled m x) = Inr fl \<and> shape fl = [N, 512] \<and> length (storage fl) = N * 512 \<and>
           (\<forall>n<N. \<forall>c<512. at2 fl n c =
              (\<Sum>a\<leftarrow>[0..<16]. \<Sum>b\<leftarrow>[0..<16]. at4 x5 n c a b) / 256) \<and>
           run_head (probabilities m) fl = Inr ps \<and> run_head (styles m) fl = Inr st \<and>
           fst (forward m x) = Inr (ps, st)"
proof -
  from pooled_ok[OF assms] obtain x5 x6 fl where
    p: "fst (stage5 m x) = Inr x5" "shape x5 = [N, 512, 16, 16]"
       "avg_pool2d 16 x5 = Inr x6" "shape x6 = [N, 512, 1, 1]" "flatten x6 = Inr fl"
       "fst (pooled m x) = Inr fl" "shape fl = [N, 512]" and
    w: "wf_tensor fl" and
    v: "\<forall>n<N. \<forall>c<512. at2 fl n c =
              (\<Sum>a\<leftarrow>[0..<16]. \<Sum>b\<leftarrow>[0..<16]. at4 x5 n c a b) / 256"
    by blast
  from forward_ok[OF assms] p(6) obtain lp ls st where
    h: "linear (fc (probabilities m)) fl = Inr lp" "linear (fc (styles m)) fl = Inr ls"
       "softmax 0 ls = Inr st" "fst (forward m x) = Inr (sigmoid lp, st)"
    by auto
  from wf_activations[OF assms(1)] h
  have r: "run_head (probabilities m) fl = Inr (sigmoid lp)" "run_head (styles m) fl = Inr st"
    by (simp_all add: run_head_sigmoid run_head_softmax)
  from w p(7) have l: "length (storage fl) = N * 512" by (simp add: wf_tensor_def)
  show ?thesis
    by (rule exI[of _ x5], rule exI[of _ x6], rule exI[of _ fl], rule exI[of _ "sigmoid lp"],
        rule exI[of _ st]) (intro conjI p l v r h(4))
qed

text \<open>Claim C8 on a batch of two images and the example model.\<close>

theorem pooled_features_witness:
  "wf_Discriminator example_model \<and> shape (example_batch 2) = [2, 3, 256, 256] \<and>
   (\<exists>x5 fl. fst (stage5 example_model (example_batch 2)) = Inr x5 \<and>
      fst (pooled example_model (example_batch 2)) = Inr fl \<and> shape fl = [2, 512] \<and>
      at2 fl 1 7 = (\<Sum>a\<leftarrow>[0..<16]. \<Sum>b\<leftarrow>[0..<16]. at4 x5 1 7 a b) / 256)"
proof -
  from pooled_features[OF example_model_wf example_batch_shape, of 2]
  obtain x5 fl where
    "fst (stage5 example_model (example_batch 2)) = Inr x5"
    "fst (pooled example_model (example_batch 2)) = Inr fl" "shape fl = [2, 512]"
    "\<forall>n<2. \<forall>c<512. at2 fl n c = (\<Sum>a\<leftarrow>[0..<16]. \<Sum>b\<leftarrow>[0..<16]. at4 x5 n c a b) / 256"
    by blast
  then have "\<exists>x5 fl. fst (stage5 example_model (example_batch 2)) = Inr x5 \<and>
      fst (pooled example_model (example_batch 2)) = Inr fl \<and> shape fl = [2, 512] \<and>
      at2 fl 1 7 = (\<Sum>a\<leftarrow>[0..<16]. \<Sum>b\<leftarrow>[0..<16]. at4 x5 1 7 a b) / 256"
    by (intro exI[of _ x5] exI[of _ fl]) simp
  then show ?thesis by (simp add: example_model_wf example_batch_shape)
qed



text \<open>
  Claim C10. When the assert statement on the input passes, every later assert statement
  of the forward pass passes too: each stage, the pooled features and the forward pass
  itself return a tensor. So the only assert statement a forward pass can fail is the
  one on the input.
\<close>

theorem only_input_assert_can_fail:
  assumes "wf_Discriminator m"
  shows "(tl (shape x) = [3, 256, 256] \<longrightarrow>
           (\<exists>x1 x2 x3 x4 x5 fl ps st.
              fst (stage1 m x) = Inr x1 \<and> fst (stage2 m x) = Inr x2 \<and> fst (stage3 m x) = Inr x3 \<and>
              fst (stage4 m x) = Inr x4 \<and> fst (stage5 m x) = Inr x5 \<and>
              fst (pooled m x) = Inr fl \<and> fst (forward m x) = Inr (ps, st))) \<and>
         (\<forall>a s. fst (forward m x) = Inl (AssertionError a s) \<longrightarrow>
            a = InputShape \<and> tl (shape x) \<noteq> [3, 256, 256])"
proof (cases "tl (shape x) = [3, 256, 256]")
  case True
  then obtain N where x: "shape x = [N, 3, 256, 256]" using valid_shape by blast
  from stage1_ok[OF assms x] stage2_ok[OF assms x] stage3_ok[OF assms x]
    stage4_ok[OF assms x] stage5_ok[OF assms x] pooled_ok[OF assms x] forward_ok[OF assms x]
  obtain x1 x2 x3 x4 x5 fl lp st where
    "fst (stage1 m x) = Inr x1" "fst (stage2 m x) = Inr x2" "fst (stage3 m x) = Inr x3"
    "fst (stage4 m x) = Inr x4" "fst (stage5 m x) = Inr x5"
    "fst (pooled m x) = Inr fl" "fst (forward m x) = Inr (sigmoid lp, st)"
    by auto
  then show ?thesis using True by auto
next
  case False
  then have "fst (forward m x) = Inl (AssertionError InputShape [])"
    by (simp add: forward_fst pooled_fst stage5_fst stage4_fst stage3_fst stage2_fst stage1_fst)
  with False show ?thesis by simp
qed

text \<open>Claim C10 on a batch of two images and the example model.\<close>

theorem only_input_assert_can_fail_witness:
  "wf_Discriminator example_model \<and> tl (shape (example_batch 2)) = [3, 256, 256] \<and>
   (\<exists>ps st. fst (forward example_model (example_batch 2)) = Inr (ps, st)) \<and>
   fst (forward example_model wrong_extent) = Inl (AssertionError InputShape []) \<and>
   tl (shape wrong_extent) \<noteq> [3, 256, 256]"
proof -
  from only_input_assert_can_fail[OF example_model_wf, of "example_batch 2"]
  have "\<exists>ps st. fst (forward example_model (example_batch 2)) = Inr (ps, st)"
    by (simp add: example_batch_shape)
  moreover have "fst (forward example_model wrong_extent) = Inl (AssertionError InputShape [])"
    by (simp add: forward_fst pooled_fst stage5_fst stage4_fst stage3_fst stage2_fst stage1_fst
        wrong_extent_def)
  ultimately show ?thesis
    by (simp add: example_model_wf example_batch_shape wrong_extent_def)
qed

end
